theory Spec2Isabelle
  imports Main "HOL-Library.AList"
begin

section \<open>JavaScript values and strings\<close>

text \<open>
  Strings are sequences of code units in the range U+0000 to U+00FF, one \<^typ>\<open>char\<close> each
  (HTTP header values are byte strings; text beyond Latin-1 is outside the model).
  Numbers are integers (no fractions, no NaN); \<open>JNum n\<close> is the JavaScript number \<open>n\<close>,
  meant for magnitudes below \<open>2^53\<close>: a double beyond that is not every integer, and from
  \<open>1e21\<close> on JavaScript prints it in exponent form, which \<open>js_to_string\<close> does not.
  \<open>JObj\<close> carries the own properties of a plain object in insertion order, keys unique.
  \<open>JNative f\<close> is the built-in function \<open>f\<close> that a value inherits from its prototype
  (an argument bag that is an array has \<open>filter\<close>).
\<close>

datatype jsval =
    JUndefined
  | JNull
  | JBool bool
  | JNum int
  | JStr string
  | JArr "jsval list"
  | JObj "(string \<times> jsval) list"
  | JNative string

text \<open>What an \<open>if (v)\<close>, \<open>!v\<close> or \<open>v || d\<close> of the source tests.\<close>

fun truthy :: "jsval \<Rightarrow> bool" where
  "truthy JUndefined = False"
| "truthy JNull = False"
| "truthy (JBool b) = b"
| "truthy (JNum n) = (n \<noteq> 0)"
| "truthy (JStr s) = (s \<noteq> [])"
| "truthy (JArr _) = True"
| "truthy (JObj _) = True"
| "truthy (JNative _) = True"

definition js_or :: "jsval \<Rightarrow> jsval \<Rightarrow> jsval" where
  "js_or v d = (if truthy v then v else d)"

text \<open>
  Everything thrown in the source is an \<open>Error\<close> object (or a subclass raised by the engine);
  handlers read only its \<open>message\<close>. The messages of engine-raised errors follow V8.
\<close>

datatype js_error = Error string | TypeError string | SyntaxError string

fun message :: "js_error \<Rightarrow> string" where
  "message (Error m) = m"
| "message (TypeError m) = m"
| "message (SyntaxError m) = m"

definition digit_char :: "nat \<Rightarrow> char" where
  "digit_char d = char_of (48 + d)"

fun string_of_nat :: "nat \<Rightarrow> string" where
  "string_of_nat n =
     (if n < 10 then [digit_char n] else string_of_nat (n div 10) @ [digit_char (n mod 10)])"

declare string_of_nat.simps [simp del]

definition string_of_int :: "int \<Rightarrow> string" where
  "string_of_int i = (if i < 0 then CHR ''-'' # string_of_nat (nat (- i)) else string_of_nat (nat i))"

fun join :: "string \<Rightarrow> string list \<Rightarrow> string" where
  "join sep [] = []"
| "join sep [x] = x"
| "join sep (x # y # ys) = x @ sep @ join sep (y # ys)"

text \<open>\<open>ToString\<close>, as applied by template literals, \<open>encodeURIComponent\<close> and \<open>new Error\<close>.\<close>

fun js_to_string :: "jsval \<Rightarrow> string" where
  "js_to_string JUndefined = ''undefined''"
| "js_to_string JNull = ''null''"
| "js_to_string (JBool b) = (if b then ''true'' else ''false'')"
| "js_to_string (JNum n) = string_of_int n"
| "js_to_string (JStr s) = s"
| "js_to_string (JArr vs) =
     join '','' (map (\<lambda>v. if v = JUndefined \<or> v = JNull then [] else js_to_string v) vs)"
| "js_to_string (JObj _) = ''[object Object]''"
| "js_to_string (JNative f) = ''function '' @ f @ ''() { [native code] }''"

text \<open>
  Property read \<open>v.k\<close> for the property names the source reads (\<open>Code\<close>, \<open>Message\<close>,
  \<open>value\<close>, \<open>baseUrl\<close>, \<open>username\<close>, \<open>password\<close>, \<open>filter\<close>, \<open>select\<close>, \<open>top\<close>,
  \<open>orderby\<close>, \<open>id\<close>, \<open>name\<close>, \<open>phone\<close>, \<open>email\<close>, \<open>web\<close>, \<open>address\<close>, \<open>city\<close>, \<open>Id\<close>,
  \<open>Name\<close>, \<open>Phone\<close>, \<open>Email\<close>, \<open>Web\<close>, \<open>City\<close>). A plain object has its own
  properties. Of the inherited ones only two carry one of these names: \<open>filter\<close> on an
  array (\<open>Array.prototype.filter\<close>) and \<open>name\<close> on a function. Reading from
  \<open>undefined\<close> or \<open>null\<close> throws.
\<close>

fun get_prop :: "jsval \<Rightarrow> string \<Rightarrow> js_error + jsval" where
  "get_prop JUndefined k =
     Inl (TypeError (''Cannot read properties of undefined (reading '' @ [CHR 0x27] @ k @ [CHR 0x27] @ '')''))"
| "get_prop JNull k =
     Inl (TypeError (''Cannot read properties of null (reading '' @ [CHR 0x27] @ k @ [CHR 0x27] @ '')''))"
| "get_prop (JObj kvs) k = Inr (case map_of kvs k of Some v \<Rightarrow> v | None \<Rightarrow> JUndefined)"
| "get_prop (JArr vs) k = Inr (if k = ''filter'' then JNative ''filter'' else JUndefined)"
| "get_prop (JNative f) k = Inr (if k = ''name'' then JStr f else JUndefined)"
| "get_prop _ k = Inr JUndefined"

subsection \<open>String helpers of the platform\<close>

fun starts_with :: "string \<Rightarrow> string \<Rightarrow> bool" where
  "starts_with s [] = True"
| "starts_with [] (p # ps) = False"
| "starts_with (c # cs) (p # ps) = (c = p \<and> starts_with cs ps)"

text \<open>\<open>s.includes(sub)\<close>.\<close>

fun str_includes :: "string \<Rightarrow> string \<Rightarrow> bool" where
  "str_includes [] sub = (sub = [])"
| "str_includes (c # cs) sub = (starts_with (c # cs) sub \<or> str_includes cs sub)"

text \<open>White space as \<open>\s\<close> and \<open>trim()\<close> see it, among the code units up to U+00FF.\<close>

definition js_whitespace :: "char \<Rightarrow> bool" where
  "js_whitespace c =
     (c = CHR 0x09 \<or> c = CHR 0x0A \<or> c = CHR 0x0B \<or> c = CHR 0x0C \<or> c = CHR 0x0D
      \<or> c = CHR '' '' \<or> c = CHR 0xA0)"

definition trim :: "string \<Rightarrow> string" where
  "trim s = rev (dropWhile js_whitespace (rev (dropWhile js_whitespace s)))"

definition is_upper :: "char \<Rightarrow> bool" where
  "is_upper c = (65 \<le> (of_char c :: nat) \<and> (of_char c :: nat) \<le> 90)"

definition is_lower :: "char \<Rightarrow> bool" where
  "is_lower c = (97 \<le> (of_char c :: nat) \<and> (of_char c :: nat) \<le> 122)"

definition is_digit :: "char \<Rightarrow> bool" where
  "is_digit c = (48 \<le> (of_char c :: nat) \<and> (of_char c :: nat) \<le> 57)"

section \<open>Cookie extraction (CreatioClient.authenticate, lines 56 to 99)\<close>

text \<open>The character classes \<open>[A-Za-z_]\<close> and \<open>[A-Za-z0-9_-]\<close> of the split pattern.\<close>

definition name_start :: "char \<Rightarrow> bool" where
  "name_start c = (is_upper c \<or> is_lower c \<or> c = CHR ''_'')"

definition name_char :: "char \<Rightarrow> bool" where
  "name_char c = (is_upper c \<or> is_lower c \<or> is_digit c \<or> c = CHR ''_'' \<or> c = CHR ''-'')"

text \<open>
  The lookahead \<open>(?=\s*[A-Za-z_][A-Za-z0-9_-]*=)\<close> tested on the text after a comma.
  Both stars are greedy and backtracking cannot help (the character after each run is
  outside the run's class), so one left-to-right pass decides it.
\<close>

definition lookahead :: "string \<Rightarrow> bool" where
  "lookahead s =
     (case dropWhile js_whitespace s of
        [] \<Rightarrow> False
      | c # r \<Rightarrow> name_start c \<and>
          (case dropWhile name_char r of [] \<Rightarrow> False | e # _ \<Rightarrow> e = CHR ''=''))"

text \<open>
  \<open>rawCookie.split(/,(?=\s*[A-Za-z_][A-Za-z0-9_-]*=)/)\<close> on a non-empty string:
  \<open>cur\<close> is the piece being collected, reversed.
\<close>

fun split_acc :: "string \<Rightarrow> string \<Rightarrow> string list" where
  "split_acc cur [] = [rev cur]"
| "split_acc cur (c # cs) =
     (if c = CHR '','' \<and> lookahead cs then rev cur # split_acc [] cs
      else split_acc (c # cur) cs)"

definition split_set_cookie :: "string \<Rightarrow> string list" where
  "split_set_cookie raw = split_acc [] raw"

text \<open>
  The two ways the response hands over its \<open>Set-Cookie\<close> headers: \<open>getSetCookie()\<close> when
  the runtime has it, else \<open>headers.get("set-cookie")\<close> (\<open>None\<close> for \<open>null\<close>).
\<close>

datatype set_cookie_access = GetSetCookie "string list" | RawHeader "string option"

fun setCookieHeaders :: "set_cookie_access \<Rightarrow> string list" where
  "setCookieHeaders (GetSetCookie hs) = hs"
| "setCookieHeaders (RawHeader None) = []"
| "setCookieHeaders (RawHeader (Some raw)) = (if raw \<noteq> [] then split_set_cookie raw else [])"

text \<open>\<open>cookieHeader.match(/^([^=]+)=([^;]*)/)\<close>: the two captures, untrimmed.\<close>

definition cookieMatch :: "string \<Rightarrow> (string \<times> string) option" where
  "cookieMatch h =
     (let n = takeWhile (\<lambda>c. c \<noteq> CHR ''='') h; r = dropWhile (\<lambda>c. c \<noteq> CHR ''='') h
      in if n = [] \<or> r = [] then None
         else Some (n, takeWhile (\<lambda>c. c \<noteq> CHR '';'') (tl r)))"

definition known_cookies :: "string list" where
  "known_cookies = [''BPMCSRF'', ''.ASPXAUTH'', ''BPMLOADER'', ''UserName'']"

text \<open>The \<open>for\<close> loop over the headers; the state is \<open>(cookieParts, csrfToken)\<close>.\<close>

fun cookie_loop :: "string list \<Rightarrow> string list \<times> string \<Rightarrow> string list \<times> string" where
  "cookie_loop [] st = st"
| "cookie_loop (h # hs) (cookieParts, csrfToken) =
     (case cookieMatch h of
        None \<Rightarrow> cookie_loop hs (cookieParts, csrfToken)
      | Some (n, v) \<Rightarrow>
          (let name = trim n; val = trim v;
               csrfToken' = (if name = ''BPMCSRF'' then val else csrfToken);
               cookieParts' = (if name \<in> set known_cookies
                               then cookieParts @ [name @ ''='' @ val] else cookieParts)
           in cookie_loop hs (cookieParts', csrfToken')))"

text \<open>
  \<open>cookies.match(/BPMCSRF=([^;]+)/)\<close>: the capture of the leftmost match, if any.
\<close>

fun bpmcsrfMatch :: "string \<Rightarrow> string option" where
  "bpmcsrfMatch [] = None"
| "bpmcsrfMatch (c # cs) =
     (if starts_with (c # cs) ''BPMCSRF=''
         \<and> takeWhile (\<lambda>x. x \<noteq> CHR '';'') (drop 8 (c # cs)) \<noteq> []
      then Some (takeWhile (\<lambda>x. x \<noteq> CHR '';'') (drop 8 (c # cs)))
      else bpmcsrfMatch cs)"

text \<open>Lines 67 to 93: the cookie string and the anti-forgery token of a header list.\<close>

definition extract_cookies :: "string list \<Rightarrow> string \<times> string" where
  "extract_cookies hs =
     (let (cookieParts, csrfToken) = cookie_loop hs ([], []);
          cookies = join ''; '' cookieParts;
          csrfToken' = (if csrfToken = [] \<and> cookies \<noteq> []
                        then (case bpmcsrfMatch cookies of Some t \<Rightarrow> t | None \<Rightarrow> csrfToken)
                        else csrfToken)
      in (cookies, csrfToken'))"

section \<open>HTTP exchange with the upstream\<close>

record request =
  rq_method :: string
  rq_url :: string
  rq_headers :: "(string \<times> string) list"
  rq_body :: "jsval option"

text \<open>
  \<open>rq_body\<close> is the value handed to \<open>JSON.stringify\<close> (\<open>None\<close> when the request has no
  body). Of a response the model keeps what the source reads: the status line, the
  \<open>content-type\<close> header (\<open>None\<close> for \<open>null\<close>), the \<open>Set-Cookie\<close> headers, the body
  text, and what \<open>JSON.parse\<close> makes of the body (\<open>Inl\<close> when it throws).
\<close>

record response =
  rs_status :: nat
  rs_statusText :: string
  rs_contentType :: "string option"
  rs_setCookie :: set_cookie_access
  rs_text :: string
  rs_json :: "js_error + jsval"

definition ok :: "response \<Rightarrow> bool" where
  "ok r = (200 \<le> rs_status r \<and> rs_status r \<le> 299)"

text \<open>\<open>fetch\<close> either rejects (network failure) or resolves to a response.\<close>

datatype fetch_result = NetFail js_error | Resp response

type_synonym net = "request \<Rightarrow> fetch_result"

subsection \<open>\<open>encodeURIComponent\<close>\<close>

definition hex_digit :: "nat \<Rightarrow> char" where
  "hex_digit d = (if d < 10 then char_of (48 + d) else char_of (55 + d))"

definition percent_byte :: "nat \<Rightarrow> string" where
  "percent_byte b = [CHR ''%'', hex_digit (b div 16), hex_digit (b mod 16)]"

definition uri_unreserved :: "char \<Rightarrow> bool" where
  \<open>uri_unreserved c = (is_upper c \<or> is_lower c \<or> is_digit c \<or> c \<in> set ''-_.!~*'()'')\<close>

text \<open>A code unit from U+0080 to U+00FF is two bytes in UTF-8.\<close>

definition encode_char :: "char \<Rightarrow> string" where
  "encode_char c =
     (if uri_unreserved c then [c]
      else if (of_char c :: nat) < 128 then percent_byte (of_char c)
      else percent_byte (192 + of_char c div 64) @ percent_byte (128 + of_char c mod 64))"

definition encodeURIComponent :: "string \<Rightarrow> string" where
  "encodeURIComponent s = concat (map encode_char s)"

section \<open>The client (creatio-client.ts)\<close>

record creatio_session =
  cookies :: string
  csrfToken :: string
  expiresAt :: int

text \<open>
  \<open>config\<close> is the object given to the constructor: the validated config on the dashboard
  path, the unchecked argument bag on the tool path (\<open>args as {...}\<close> checks nothing).
\<close>

record creatio_client =
  config :: jsval
  session :: "creatio_session option"

text \<open>
  Clients are objects with identity: the heap holds them, a reference is an index.
  \<open>currentClient\<close> is the module variable of creatio-client.ts, \<open>mcpServer_client\<close> the
  field \<open>client\<close> of the singleton \<open>mcpServer\<close>. \<open>net_log\<close> lists every request handed to
  \<open>fetch\<close>, oldest first. \<open>clock\<close> is \<open>Date.now()\<close> and \<open>now_iso\<close> is
  \<open>new Date().toISOString()\<close>, both constant during one operation. Console output is
  not part of the state.
\<close>

record world =
  heap :: "creatio_client list"
  currentClient :: "nat option"
  mcpServer_client :: "nat option"
  net_log :: "request list"
  clock :: int
  now_iso :: string

definition deref :: "world \<Rightarrow> nat \<Rightarrow> creatio_client" where
  "deref w r = heap w ! r"

definition sessionTimeout :: int where
  "sessionTimeout = 30 * 60 * 1000"

text \<open>\<open>new CreatioClient(config)\<close>: a fresh object, no session.\<close>

definition new_CreatioClient :: "jsval \<Rightarrow> world \<Rightarrow> nat \<times> world" where
  "new_CreatioClient cfg w =
     (length (heap w), w\<lparr>heap := heap w @ [\<lparr>config = cfg, session = None\<rparr>]\<rparr>)"

text \<open>The getter \<open>baseUrl\<close>: \<open>this.config.baseUrl.replace(/\/$/, "")\<close>.\<close>

definition strip_trailing_slash :: "string \<Rightarrow> string" where
  "strip_trailing_slash s = (if s \<noteq> [] \<and> last s = CHR ''/'' then butlast s else s)"

definition client_baseUrl :: "creatio_client \<Rightarrow> js_error + string" where
  "client_baseUrl c =
     (case get_prop (config c) ''baseUrl'' of
        Inl e \<Rightarrow> Inl e
      | Inr (JStr s) \<Rightarrow> Inr (strip_trailing_slash s)
      | Inr JUndefined \<Rightarrow>
          Inl (TypeError (''Cannot read properties of undefined (reading '' @ [CHR 0x27] @ ''replace'' @ [CHR 0x27] @ '')''))
      | Inr JNull \<Rightarrow>
          Inl (TypeError (''Cannot read properties of null (reading '' @ [CHR 0x27] @ ''replace'' @ [CHR 0x27] @ '')''))
      | Inr _ \<Rightarrow> Inl (TypeError ''this.config.baseUrl.replace is not a function''))"

definition isSessionValid :: "creatio_client \<Rightarrow> int \<Rightarrow> bool" where
  "isSessionValid c now = (case session c of None \<Rightarrow> False | Some s \<Rightarrow> now < expiresAt s)"

definition js_prop :: "jsval \<Rightarrow> string \<Rightarrow> jsval" where
  "js_prop v k = (case get_prop v k of Inl _ \<Rightarrow> JUndefined | Inr x \<Rightarrow> x)"

definition log_request :: "request \<Rightarrow> world \<Rightarrow> world" where
  "log_request rq w = w\<lparr>net_log := net_log w @ [rq]\<rparr>"

definition store_session :: "nat \<Rightarrow> creatio_session \<Rightarrow> world \<Rightarrow> world" where
  "store_session r s w = w\<lparr>heap := (heap w)[r := (deref w r)\<lparr>session := Some s\<rparr>]\<rparr>"

text \<open>The login request of lines 33 to 44.\<close>

definition login_path :: string where
  "login_path = ''/ServiceModel/AuthService.svc/Login''"

definition login_request :: "string \<Rightarrow> jsval \<Rightarrow> request" where
  "login_request base cfg =
     \<lparr>rq_method = ''POST'',
      rq_url = base @ login_path,
      rq_headers = [(''Content-Type'', ''application/json'')],
      rq_body = Some (JObj [(''UserName'', js_prop cfg ''username''),
                            (''UserPassword'', js_prop cfg ''password'')])\<rparr>"

text \<open>
  \<open>authenticate\<close>. Every \<open>throw\<close> is an \<open>Inl\<close>; the world comes back in both cases, since
  the login request has been sent by the time most of them happen.
\<close>

definition authenticate :: "net \<Rightarrow> nat \<Rightarrow> world \<Rightarrow> (js_error + unit) \<times> world" where
  "authenticate nt r w =
     (case client_baseUrl (deref w r) of
        Inl e \<Rightarrow> (Inl e, w)
      | Inr base \<Rightarrow>
          (let rq = login_request base (config (deref w r));
               w1 = log_request rq w
           in case nt rq of
                NetFail e \<Rightarrow> (Inl e, w1)
              | Resp resp \<Rightarrow>
                  if \<not> ok resp
                  then (Inl (Error (''Authentication failed: '' @ string_of_nat (rs_status resp)
                                     @ '' '' @ rs_statusText resp)), w1)
                  else (case rs_json resp of
                          Inl e \<Rightarrow> (Inl e, w1)
                        | Inr result \<Rightarrow>
                            (case get_prop result ''Code'' of
                               Inl e \<Rightarrow> (Inl e, w1)
                             | Inr code \<Rightarrow>
                                 if code \<noteq> JNum 0
                                 then (Inl (Error (js_to_string
                                          (js_or (js_prop result ''Message'') (JStr ''Authentication failed'')))), w1)
                                 else (let (cks, tok) = extract_cookies (setCookieHeaders (rs_setCookie resp))
                                       in (Inr (), store_session r
                                             \<lparr>cookies = cks, csrfToken = tok,
                                              expiresAt = clock w1 + sessionTimeout\<rparr> w1))))))"

definition ensureAuthenticated :: "net \<Rightarrow> nat \<Rightarrow> world \<Rightarrow> (js_error + unit) \<times> world" where
  "ensureAuthenticated nt r w =
     (if \<not> isSessionValid (deref w r) (clock w) then authenticate nt r w else (Inr (), w))"

definition getHeaders :: "creatio_client \<Rightarrow> js_error + (string \<times> string) list" where
  "getHeaders c =
     (case session c of
        None \<Rightarrow> Inl (Error ''Not authenticated'')
      | Some s \<Rightarrow> Inr [(''Accept'', ''application/json''),
                       (''Content-Type'', ''application/json; charset=utf-8; IEEE754Compatible=true''),
                       (''ForceUseSession'', ''true''),
                       (''BPMCSRF'', csrfToken s),
                       (''Cookie'', cookies s)])"

record connection_result =
  success :: bool
  msg :: string

definition testConnection :: "net \<Rightarrow> nat \<Rightarrow> world \<Rightarrow> connection_result \<times> world" where
  "testConnection nt r w =
     (case authenticate nt r w of
        (Inr _, w') \<Rightarrow> (\<lparr>success = True, msg = ''Successfully connected to Creatio instance''\<rparr>, w')
      | (Inl e, w') \<Rightarrow> (\<lparr>success = False, msg = message e\<rparr>, w'))"

text \<open>The module-level pointer and its three functions.\<close>

definition getCreatioClient :: "world \<Rightarrow> nat option" where
  "getCreatioClient w = currentClient w"

definition setCreatioClient :: "nat option \<Rightarrow> world \<Rightarrow> world" where
  "setCreatioClient c w = w\<lparr>currentClient := c\<rparr>"

definition createCreatioClient :: "jsval \<Rightarrow> world \<Rightarrow> nat \<times> world" where
  "createCreatioClient cfg w =
     (let (client, w1) = new_CreatioClient cfg w in (client, setCreatioClient (Some client) w1))"

subsection \<open>The data operations\<close>

text \<open>
  The unchecked \<open>QueryParams\<close> object: an absent property reads as \<open>undefined\<close>.
\<close>

record query_params =
  qp_filter :: jsval
  qp_select :: jsval
  qp_top :: jsval
  qp_skip :: jsval
  qp_orderby :: jsval
  qp_expand :: jsval

text \<open>Lines 146 to 170: six guarded pushes onto \<open>queryParts\<close>, in this order.\<close>

definition queryParts :: "query_params \<Rightarrow> string list" where
  "queryParts p =
     (let parts0 = [];
          parts1 = (if truthy (qp_filter p)
                    then parts0 @ [''$filter='' @ encodeURIComponent (js_to_string (qp_filter p))]
                    else parts0);
          parts2 = (if truthy (qp_select p)
                    then parts1 @ [''$select='' @ encodeURIComponent (js_to_string (qp_select p))]
                    else parts1);
          parts3 = (if truthy (qp_top p)
                    then parts2 @ [''$top='' @ js_to_string (qp_top p)]
                    else parts2);
          parts4 = (if truthy (qp_skip p)
                    then parts3 @ [''$skip='' @ js_to_string (qp_skip p)]
                    else parts3);
          parts5 = (if truthy (qp_orderby p)
                    then parts4 @ [''$orderby='' @ encodeURIComponent (js_to_string (qp_orderby p))]
                    else parts4);
          parts6 = (if truthy (qp_expand p)
                    then parts5 @ [''$expand='' @ encodeURIComponent (js_to_string (qp_expand p))]
                    else parts5)
      in parts6)"

definition queryString :: "query_params \<Rightarrow> string" where
  "queryString p =
     (if length (queryParts p) > 0 then ''?'' @ join ''&'' (queryParts p) else [])"

text \<open>
  What the five operations share, in the order the source evaluates it:
  \<open>ensureAuthenticated\<close>, the URL (through the \<open>baseUrl\<close> getter), \<open>getHeaders\<close>, \<open>fetch\<close>.
\<close>

definition send :: "net \<Rightarrow> nat \<Rightarrow> string \<Rightarrow> string \<Rightarrow> jsval option \<Rightarrow> world
                    \<Rightarrow> (js_error + response) \<times> world" where
  "send nt r meth path body w =
     (case ensureAuthenticated nt r w of
        (Inl e, w1) \<Rightarrow> (Inl e, w1)
      | (Inr _, w1) \<Rightarrow>
          (case client_baseUrl (deref w1 r) of
             Inl e \<Rightarrow> (Inl e, w1)
           | Inr base \<Rightarrow>
               (case getHeaders (deref w1 r) of
                  Inl e \<Rightarrow> (Inl e, w1)
                | Inr hs \<Rightarrow>
                    (let rq = \<lparr>rq_method = meth, rq_url = base @ path,
                               rq_headers = hs, rq_body = body\<rparr>;
                         w2 = log_request rq w1
                     in case nt rq of
                          NetFail e \<Rightarrow> (Inl e, w2)
                        | Resp resp \<Rightarrow> (Inr resp, w2)))))"

definition to_lower :: "char \<Rightarrow> char" where
  "to_lower c = (if is_upper c then char_of ((of_char c :: nat) + 32) else c)"

text \<open>
  \<open>responseText.match(/<title>([^<]+)<\/title>/i)\<close>: the capture of the leftmost match.
\<close>

fun titleMatch :: "string \<Rightarrow> string option" where
  "titleMatch [] = None"
| "titleMatch (c # cs) =
     (if starts_with (map to_lower (c # cs)) ''<title>''
         \<and> takeWhile (\<lambda>x. x \<noteq> CHR ''<'') (drop 7 (c # cs)) \<noteq> []
         \<and> starts_with (map to_lower (dropWhile (\<lambda>x. x \<noteq> CHR ''<'') (drop 7 (c # cs)))) ''</title>''
      then Some (takeWhile (\<lambda>x. x \<noteq> CHR ''<'') (drop 7 (c # cs)))
      else titleMatch cs)"

definition contentType_of :: "response \<Rightarrow> string" where
  "contentType_of resp = (case rs_contentType resp of None \<Rightarrow> [] | Some s \<Rightarrow> s)"

text \<open>
  Lines 180 to 203: the classification of the query response. \<open>rs_json\<close> is consulted
  in the last branch only, where the source calls \<open>JSON.parse\<close>; reading \<open>data.value\<close>
  happens inside the same \<open>try\<close>.
\<close>

definition query_response :: "response \<Rightarrow> js_error + jsval" where
  \<open>query_response resp =
     (let contentType = contentType_of resp; responseText = rs_text resp
      in if \<not> ok resp
         then (if str_includes contentType ''text/html''
               then Inl (Error (''Creatio returned an error page: ''
                        @ (case titleMatch responseText of Some t \<Rightarrow> t | None \<Rightarrow> ''Access Denied'')
                        @ ''. Your API user may need the 'CanUseODataService' permission.''))
               else Inl (Error (''Query failed: '' @ string_of_nat (rs_status resp) @ '' ''
                        @ rs_statusText resp @ '' - '' @ responseText)))
         else if str_includes contentType ''text/html''
         then Inl (Error (''Creatio returned HTML instead of JSON: ''
                  @ (case titleMatch responseText of Some t \<Rightarrow> t | None \<Rightarrow> ''Unknown Error'')
                  @ ''. Check that your user has OData API access permissions.''))
         else (case (case rs_json resp of Inl e \<Rightarrow> Inl e | Inr data \<Rightarrow> get_prop data ''value'') of
                 Inl _ \<Rightarrow> Inl (Error (''Invalid response from Creatio. Expected JSON but received: ''
                            @ take 200 responseText @ ''...''))
               | Inr v \<Rightarrow> Inr (js_or v (JArr []))))\<close>

definition queryAccounts :: "net \<Rightarrow> nat \<Rightarrow> query_params \<Rightarrow> world \<Rightarrow> (js_error + jsval) \<times> world" where
  "queryAccounts nt r p w =
     (case send nt r ''GET'' (''/0/odata/Account'' @ queryString p) None w of
        (Inl e, w') \<Rightarrow> (Inl e, w')
      | (Inr resp, w') \<Rightarrow> (query_response resp, w'))"

definition failure_text :: "string \<Rightarrow> response \<Rightarrow> string" where
  "failure_text what resp =
     what @ '' failed: '' @ string_of_nat (rs_status resp) @ '' '' @ rs_statusText resp
       @ '' - '' @ rs_text resp"

definition account_path :: "jsval \<Rightarrow> string" where
  "account_path aid = ''/0/odata/Account('' @ js_to_string aid @ '')''"

definition getAccountById :: "net \<Rightarrow> nat \<Rightarrow> jsval \<Rightarrow> world \<Rightarrow> (js_error + jsval) \<times> world" where
  "getAccountById nt r aid w =
     (case send nt r ''GET'' (account_path aid) None w of
        (Inl e, w') \<Rightarrow> (Inl e, w')
      | (Inr resp, w') \<Rightarrow>
          if rs_status resp = 404 then (Inr JNull, w')
          else if \<not> ok resp then (Inl (Error (failure_text ''Get account'' resp)), w')
          else (rs_json resp, w'))"

definition createAccount :: "net \<Rightarrow> nat \<Rightarrow> jsval \<Rightarrow> world \<Rightarrow> (js_error + jsval) \<times> world" where
  "createAccount nt r account w =
     (case send nt r ''POST'' ''/0/odata/Account'' (Some account) w of
        (Inl e, w') \<Rightarrow> (Inl e, w')
      | (Inr resp, w') \<Rightarrow>
          if \<not> ok resp then (Inl (Error (failure_text ''Create account'' resp)), w')
          else (rs_json resp, w'))"

definition updateAccount :: "net \<Rightarrow> nat \<Rightarrow> jsval \<Rightarrow> jsval \<Rightarrow> world \<Rightarrow> (js_error + unit) \<times> world" where
  "updateAccount nt r aid updates w =
     (case send nt r ''PATCH'' (account_path aid) (Some updates) w of
        (Inl e, w') \<Rightarrow> (Inl e, w')
      | (Inr resp, w') \<Rightarrow>
          if \<not> ok resp then (Inl (Error (failure_text ''Update account'' resp)), w')
          else (Inr (), w'))"

definition deleteAccount :: "net \<Rightarrow> nat \<Rightarrow> jsval \<Rightarrow> world \<Rightarrow> (js_error + unit) \<times> world" where
  "deleteAccount nt r aid w =
     (case send nt r ''DELETE'' (account_path aid) None w of
        (Inl e, w') \<Rightarrow> (Inl e, w')
      | (Inr resp, w') \<Rightarrow>
          if \<not> ok resp \<and> rs_status resp \<noteq> 204
          then (Inl (Error (failure_text ''Delete account'' resp)), w')
          else (Inr (), w'))"

section \<open>Tool dispatch (mcp-server.ts and mcp-sse-server.ts)\<close>

text \<open>
  The module mcp-server.ts is the second part of the file src/server/routes.ts, from line 255
  on; the line numbers given for it below are those of that file.
\<close>

text \<open>
  A content block is \<open>{type: "text", text}\<close>; \<open>Json v\<close> stands for the text
  \<open>JSON.stringify(v, null, 2)\<close>. \<open>isError = None\<close> is a result without the property.
\<close>

datatype text_block = Lit string | Json jsval

record tool_result =
  content :: "text_block list"
  isError :: "bool option"

definition not_connected :: tool_result where
  "not_connected =
     \<lparr>content = [Lit ''Not connected. Use test_creatio_connection first.''], isError = Some True\<rparr>"

definition connection_text :: "connection_result \<Rightarrow> world \<Rightarrow> tool_result" where
  "connection_text result w =
     \<lparr>content = [Json (JObj [(''success'', JBool (success result)),
                              (''message'', JStr (msg result)),
                              (''timestamp'', JStr (now_iso w))])],
      isError = Some (\<not> success result)\<rparr>"

text \<open>\<open>MCPServer.testConnection\<close>: promotes the client to \<open>this.client\<close> on success.\<close>

definition MCPServer_testConnection :: "net \<Rightarrow> jsval \<Rightarrow> world \<Rightarrow> (js_error + tool_result) \<times> world" where
  "MCPServer_testConnection nt cfg w =
     (let (client, w1) = new_CreatioClient cfg w;
          (result, w2) = testConnection nt client w1;
          w3 = (if success result then w2\<lparr>mcpServer_client := Some client\<rparr> else w2)
      in (Inr (connection_text result w3), w3))"

text \<open>\<open>testConnection\<close> of mcp-sse-server.ts: promotes through \<open>setCreatioClient\<close>.\<close>

definition sse_testConnection :: "net \<Rightarrow> jsval \<Rightarrow> world \<Rightarrow> (js_error + tool_result) \<times> world" where
  "sse_testConnection nt cfg w =
     (let (client, w1) = new_CreatioClient cfg w;
          (result, w2) = testConnection nt client w1;
          w3 = (if success result then setCreatioClient (Some client) w2 else w2)
      in (Inr (connection_text result w3), w3))"

text \<open>
  The five data tools are written twice in the source, word for word except for where
  the client comes from (\<open>this.client\<close> or \<open>getCreatioClient()\<close>); \<open>ptr\<close> is that value.
\<close>

fun map_err :: "('a \<Rightarrow> js_error + 'b) \<Rightarrow> 'a list \<Rightarrow> js_error + 'b list" where
  "map_err f [] = Inr []"
| "map_err f (x # xs) =
     (case f x of
        Inl e \<Rightarrow> Inl e
      | Inr y \<Rightarrow> (case map_err f xs of Inl e \<Rightarrow> Inl e | Inr ys \<Rightarrow> Inr (y # ys)))"

definition summarise :: "jsval \<Rightarrow> js_error + jsval" where
  "summarise a =
     (case get_prop a ''Id'' of
        Inl e \<Rightarrow> Inl e
      | Inr i \<Rightarrow> Inr (JObj [(''Id'', i), (''Name'', js_prop a ''Name''), (''Phone'', js_prop a ''Phone''),
                            (''Email'', js_prop a ''Email''), (''Web'', js_prop a ''Web''),
                            (''City'', js_prop a ''City'')]))"

definition account_summary :: "jsval \<Rightarrow> js_error + tool_result" where
  "account_summary accounts =
     (case accounts of
        JArr xs \<Rightarrow>
          (case map_err summarise xs of
             Inl e \<Rightarrow> Inl e
           | Inr ys \<Rightarrow> Inr \<lparr>content = [Json (JObj [(''count'', JNum (int (length xs))),
                                                     (''accounts'', JArr ys)])],
                            isError = None\<rparr>)
      | _ \<Rightarrow> Inl (TypeError ''accounts.map is not a function''))"

definition tool_queryAccounts :: "net \<Rightarrow> nat option \<Rightarrow> jsval \<Rightarrow> world \<Rightarrow> (js_error + tool_result) \<times> world" where
  "tool_queryAccounts nt ptr params w =
     (case ptr of
        None \<Rightarrow> (Inr not_connected, w)
      | Some client \<Rightarrow>
          (case get_prop params ''filter'' of
             Inl e \<Rightarrow> (Inl e, w)
           | Inr f \<Rightarrow>
               (case queryAccounts nt client
                       \<lparr>qp_filter = f,
                        qp_select = js_prop params ''select'',
                        qp_top = js_or (js_prop params ''top'') (JNum 25),
                        qp_skip = JUndefined,
                        qp_orderby = js_or (js_prop params ''orderby'') (JStr ''Name asc''),
                        qp_expand = JUndefined\<rparr> w of
                  (Inl e, w') \<Rightarrow> (Inl e, w')
                | (Inr accounts, w') \<Rightarrow> (account_summary accounts, w'))))"

definition tool_getAccount :: "net \<Rightarrow> nat option \<Rightarrow> jsval \<Rightarrow> world \<Rightarrow> (js_error + tool_result) \<times> world" where
  "tool_getAccount nt ptr aid w =
     (case ptr of
        None \<Rightarrow> (Inr not_connected, w)
      | Some client \<Rightarrow>
          (case getAccountById nt client aid w of
             (Inl e, w') \<Rightarrow> (Inl e, w')
           | (Inr account, w') \<Rightarrow>
               if \<not> truthy account
               then (Inr \<lparr>content = [Lit (''Account not found: '' @ js_to_string aid)],
                          isError = Some True\<rparr>, w')
               else (Inr \<lparr>content = [Json account], isError = None\<rparr>, w')))"

text \<open>\<open>if (args.k) obj.K = args.k\<close>, one optional field.\<close>

definition copy_if_truthy :: "jsval \<Rightarrow> string \<times> string \<Rightarrow> (string \<times> jsval) list \<Rightarrow> (string \<times> jsval) list" where
  "copy_if_truthy args kK obj =
     (if truthy (js_prop args (fst kK)) then AList.update (snd kK) (js_prop args (fst kK)) obj else obj)"

text \<open>Lines 582 to 590 (and 374 to 382): the object \<open>accountData\<close>.\<close>

definition accountData :: "jsval \<Rightarrow> (string \<times> jsval) list" where
  "accountData args =
     (copy_if_truthy args (''city'', ''City'')
       (copy_if_truthy args (''address'', ''Address'')
         (copy_if_truthy args (''web'', ''Web'')
           (copy_if_truthy args (''email'', ''Email'')
             (copy_if_truthy args (''phone'', ''Phone'')
               [(''Name'', js_prop args ''name'')])))))"

text \<open>Lines 617 to 624 (and 419 to 426): the object \<open>updates\<close>.\<close>

definition updates_of :: "jsval \<Rightarrow> (string \<times> jsval) list" where
  "updates_of args =
     (copy_if_truthy args (''city'', ''City'')
       (copy_if_truthy args (''address'', ''Address'')
         (copy_if_truthy args (''web'', ''Web'')
           (copy_if_truthy args (''email'', ''Email'')
             (copy_if_truthy args (''phone'', ''Phone'')
               (copy_if_truthy args (''name'', ''Name'') []))))))"

definition tool_createAccount :: "net \<Rightarrow> nat option \<Rightarrow> jsval \<Rightarrow> world \<Rightarrow> (js_error + tool_result) \<times> world" where
  "tool_createAccount nt ptr args w =
     (case ptr of
        None \<Rightarrow> (Inr not_connected, w)
      | Some client \<Rightarrow>
          (case get_prop args ''name'' of
             Inl e \<Rightarrow> (Inl e, w)
           | Inr _ \<Rightarrow>
               (case createAccount nt client (JObj (accountData args)) w of
                  (Inl e, w') \<Rightarrow> (Inl e, w')
                | (Inr created, w') \<Rightarrow>
                    (Inr \<lparr>content = [Json (JObj [(''success'', JBool True),
                                                  (''message'', JStr ''Account created successfully''),
                                                  (''account'', created)])],
                          isError = None\<rparr>, w'))))"

definition tool_updateAccount :: "net \<Rightarrow> nat option \<Rightarrow> jsval \<Rightarrow> world \<Rightarrow> (js_error + tool_result) \<times> world" where
  "tool_updateAccount nt ptr args w =
     (case ptr of
        None \<Rightarrow> (Inr not_connected, w)
      | Some client \<Rightarrow>
          (case get_prop args ''id'' of
             Inl e \<Rightarrow> (Inl e, w)
           | Inr aid \<Rightarrow>
               (case updateAccount nt client aid (JObj (updates_of args)) w of
                  (Inl e, w') \<Rightarrow> (Inl e, w')
                | (Inr _, w') \<Rightarrow>
                    (Inr \<lparr>content = [Json (JObj [(''success'', JBool True),
                                                  (''message'', JStr (''Account '' @ js_to_string aid
                                                                      @ '' updated successfully''))])],
                          isError = None\<rparr>, w'))))"

definition tool_deleteAccount :: "net \<Rightarrow> nat option \<Rightarrow> jsval \<Rightarrow> world \<Rightarrow> (js_error + tool_result) \<times> world" where
  "tool_deleteAccount nt ptr aid w =
     (case ptr of
        None \<Rightarrow> (Inr not_connected, w)
      | Some client \<Rightarrow>
          (case deleteAccount nt client aid w of
             (Inl e, w') \<Rightarrow> (Inl e, w')
           | (Inr _, w') \<Rightarrow>
               (Inr \<lparr>content = [Json (JObj [(''success'', JBool True),
                                             (''message'', JStr (''Account '' @ js_to_string aid
                                                                 @ '' deleted successfully''))])],
                     isError = None\<rparr>, w')))"

text \<open>
  The \<open>switch\<close> inside \<open>try\<close>: \<open>args.id\<close> is read in the \<open>case\<close> arm itself, so it can
  throw before the tool runs. \<open>test\<close> is the surface's own connection test and \<open>ptr\<close>
  its client pointer.
\<close>

definition unknown_tool :: "string \<Rightarrow> tool_result" where
  "unknown_tool name = \<lparr>content = [Lit (''Unknown tool: '' @ name)], isError = Some True\<rparr>"

definition dispatch :: "(net \<Rightarrow> jsval \<Rightarrow> world \<Rightarrow> (js_error + tool_result) \<times> world) \<Rightarrow> (world \<Rightarrow> nat option)
                        \<Rightarrow> net \<Rightarrow> string \<Rightarrow> jsval \<Rightarrow> world \<Rightarrow> (js_error + tool_result) \<times> world" where
  "dispatch test ptr nt name args w =
     (if name = ''test_creatio_connection'' then test nt args w
      else if name = ''query_creatio_accounts'' then tool_queryAccounts nt (ptr w) args w
      else if name = ''get_creatio_account''
      then (case get_prop args ''id'' of
              Inl e \<Rightarrow> (Inl e, w)
            | Inr aid \<Rightarrow> tool_getAccount nt (ptr w) aid w)
      else if name = ''create_creatio_account'' then tool_createAccount nt (ptr w) args w
      else if name = ''update_creatio_account'' then tool_updateAccount nt (ptr w) args w
      else if name = ''delete_creatio_account''
      then (case get_prop args ''id'' of
              Inl e \<Rightarrow> (Inl e, w)
            | Inr aid \<Rightarrow> tool_deleteAccount nt (ptr w) aid w)
      else (Inr (unknown_tool name), w))"

text \<open>The \<open>catch\<close> around the switch.\<close>

definition catch_tool :: "string \<Rightarrow> (js_error + tool_result) \<times> world \<Rightarrow> tool_result \<times> world" where
  "catch_tool name r =
     (case r of
        (Inl e, w') \<Rightarrow>
          (\<lparr>content = [Lit (''Error executing '' @ name @ '': '' @ message e)],
            isError = Some True\<rparr>, w')
      | (Inr res, w') \<Rightarrow> (res, w'))"

text \<open>\<open>MCPServer.executeTool\<close> (mcp-server.ts).\<close>

definition executeTool :: "net \<Rightarrow> string \<Rightarrow> jsval \<Rightarrow> world \<Rightarrow> tool_result \<times> world" where
  "executeTool nt name args w =
     catch_tool name (dispatch MCPServer_testConnection mcpServer_client nt name args w)"

text \<open>The \<open>CallToolRequestSchema\<close> handler of \<open>createMCPServer\<close> (mcp-sse-server.ts).\<close>

definition callTool :: "net \<Rightarrow> string \<Rightarrow> jsval \<Rightarrow> world \<Rightarrow> tool_result \<times> world" where
  "callTool nt name args w =
     catch_tool name (dispatch sse_testConnection getCreatioClient nt name args w)"

section \<open>The dashboard's connect and disconnect routes (routes.ts)\<close>

record http_reply =
  rp_status :: nat
  rp_body :: jsval

text \<open>
  \<open>creatioConfigSchema.parse\<close> (shared/schema.ts): an object with a URL string and two
  non-empty strings; \<open>None\<close> is the thrown \<open>ZodError\<close>. What counts as a URL is zod's
  business and comes in as \<open>is_url\<close>. The result keeps the three declared keys only.
\<close>

definition creatioConfigSchema_parse :: "(string \<Rightarrow> bool) \<Rightarrow> jsval \<Rightarrow> jsval option" where
  "creatioConfigSchema_parse is_url body =
     (case body of
        JObj kvs \<Rightarrow>
          (case (map_of kvs ''baseUrl'', map_of kvs ''username'', map_of kvs ''password'') of
             (Some (JStr b), Some (JStr u), Some (JStr p)) \<Rightarrow>
               if is_url b \<and> u \<noteq> [] \<and> p \<noteq> []
               then Some (JObj [(''baseUrl'', JStr b), (''username'', JStr u), (''password'', JStr p)])
               else None
           | _ \<Rightarrow> None)
      | _ \<Rightarrow> None)"

text \<open>
  \<open>POST /api/creatio/connect\<close>. Nothing after a successful parse throws
  (\<open>testConnection\<close> catches every failure of \<open>authenticate\<close>), so the 500 branch of the
  handler's \<open>catch\<close> is never taken and only the \<open>ZodError\<close> branch is left.
\<close>

definition connect_handler :: "(string \<Rightarrow> bool) \<Rightarrow> net \<Rightarrow> jsval \<Rightarrow> world \<Rightarrow> http_reply \<times> world" where
  "connect_handler is_url nt body w =
     (case creatioConfigSchema_parse is_url body of
        None \<Rightarrow>
          (\<lparr>rp_status = 400,
            rp_body = JObj [(''success'', JBool False),
                            (''error'', JStr ''Invalid configuration provided'')]\<rparr>, w)
      | Some validatedConfig \<Rightarrow>
          (let (client, w1) = createCreatioClient validatedConfig w;
               (result, w2) = testConnection nt client w1;
               w3 = (if success result then w2\<lparr>mcpServer_client := Some client\<rparr> else w2)
           in (\<lparr>rp_status = 200,
                 rp_body = JObj [(''success'', JBool (success result)),
                                 (''message'', JStr (msg result)),
                                 (''timestamp'', JStr (now_iso w3))]\<rparr>, w3)))"

text \<open>\<open>POST /api/creatio/disconnect\<close>: \<open>setCreatioClient(null as any)\<close>.\<close>

definition disconnect_handler :: "world \<Rightarrow> http_reply \<times> world" where
  "disconnect_handler w =
     (\<lparr>rp_status = 200,
       rp_body = JObj [(''success'', JBool True), (''message'', JStr ''Disconnected from Creatio'')]\<rparr>,
      setCreatioClient None w)"

section \<open>Session routing (registerMCPRoutes)\<close>

text \<open>
  \<open>activeTransports\<close> is a \<open>Map\<close> from session id to transport; a transport is named by
  a number. \<open>AList.update\<close> and \<open>AList.delete\<close> are \<open>Map.set\<close> and \<open>Map.delete\<close>.
\<close>

type_synonym registry = "(string \<times> nat) list"

text \<open>
  The state of the streaming routes: the map, and the session ids of the requests that
  carry the handler's \<open>close\<close> listener.
\<close>

record sse_server =
  activeTransports :: registry
  listening :: "string list"

text \<open>
  \<open>GET /mcp/sse\<close>, lines 485 to 506: up to the \<open>await\<close>. The session id is what
  \<open>crypto.randomUUID()\<close> returned, the transport the one just constructed; the handler
  has flushed the response headers and stored the transport.
\<close>

definition sse_accept :: "string \<Rightarrow> nat \<Rightarrow> sse_server \<Rightarrow> sse_server" where
  "sse_accept sessionId transport st =
     st\<lparr>activeTransports := AList.update sessionId transport (activeTransports st)\<rparr>"

text \<open>
  Lines 509 to 516: \<open>await server.connect(transport)\<close>, then \<open>req.on("close", ...)\<close>.
  \<open>server.connect\<close> belongs to the SDK: \<open>connected\<close> is \<open>None\<close> when it resolves and
  the error when it rejects. The listener is installed only when it resolves; when it
  rejects the handler ends with that error and nothing takes the stored transport back.
\<close>

definition sse_after_connect :: "string \<Rightarrow> js_error option \<Rightarrow> sse_server \<Rightarrow> (js_error + unit) \<times> sse_server" where
  "sse_after_connect sessionId connected st =
     (case connected of
        Some e \<Rightarrow> (Inl e, st)
      | None \<Rightarrow> (Inr (), st\<lparr>listening := sessionId # listening st\<rparr>))"

text \<open>The handler run through without the connection closing meanwhile.\<close>

definition sse_handler :: "string \<Rightarrow> nat \<Rightarrow> js_error option \<Rightarrow> sse_server \<Rightarrow> (js_error + unit) \<times> sse_server" where
  "sse_handler sessionId transport connected st =
     sse_after_connect sessionId connected (sse_accept sessionId transport st)"

text \<open>
  The connection of a session closes: the request emits \<open>close\<close> once. If the listener is
  installed it runs \<open>activeTransports.delete(sessionId)\<close>; if not, nothing runs.
\<close>

definition connection_closed :: "string \<Rightarrow> sse_server \<Rightarrow> sse_server" where
  "connection_closed sessionId st =
     (if sessionId \<in> set (listening st)
      then st\<lparr>activeTransports := AList.delete sessionId (activeTransports st),
              listening := removeAll sessionId (listening st)\<rparr>
      else st)"

text \<open>
  \<open>POST /mcp/messages\<close>. \<open>sid\<close> is \<open>req.query.sessionId\<close> (\<open>undefined\<close> when the query has
  none; only a string can be a key of the map). \<open>handlePostMessage\<close> belongs to the SDK:
  \<open>deliver t\<close> is \<open>None\<close> when transport \<open>t\<close> took the message and answered itself, and
  the error when it threw.
\<close>

datatype post_outcome = Reply http_reply | Delivered nat

definition post_message :: "(nat \<Rightarrow> js_error option) \<Rightarrow> registry \<Rightarrow> jsval \<Rightarrow> post_outcome" where
  "post_message deliver reg sid =
     (if \<not> truthy sid
      then Reply \<lparr>rp_status = 400, rp_body = JObj [(''error'', JStr ''Session ID required'')]\<rparr>
      else (case (case sid of JStr s \<Rightarrow> map_of reg s | _ \<Rightarrow> None) of
              None \<Rightarrow> Reply \<lparr>rp_status = 404, rp_body = JObj [(''error'', JStr ''Session not found'')]\<rparr>
            | Some transport \<Rightarrow>
                (case deliver transport of
                   None \<Rightarrow> Delivered transport
                 | Some _ \<Rightarrow> Reply \<lparr>rp_status = 500,
                                     rp_body = JObj [(''error'', JStr ''Internal server error'')]\<rparr>)))"

text \<open>\<open>GET /mcp/health\<close>: \<open>activeTransports.size\<close>.\<close>

definition activeSessions :: "registry \<Rightarrow> nat" where
  "activeSessions reg = length reg"

section \<open>The tool catalogues\<close>

text \<open>
  An \<open>MCPTool\<close> of mcp-server.ts: \<open>inputSchema.type\<close> is always \<open>"object"\<close> and no
  property declares an \<open>enum\<close>, so the model keeps the properties in declaration order
  and the \<open>required\<close> list (\<open>None\<close> when the declaration has none).
\<close>

record mcp_property =
  p_type :: string
  p_description :: string

record mcp_tool =
  t_name :: string
  t_description :: string
  t_properties :: "(string \<times> mcp_property) list"
  t_required :: "string list option"

text \<open>The registry declaration \<open>MCP_TOOLS\<close> (mcp-server.ts).\<close>

definition MCP_TOOLS :: "mcp_tool list" where
  \<open>MCP_TOOLS = [
    \<lparr>t_name = ''test_creatio_connection'',
      t_description = ''Test connection to a Creatio CRM instance using Forms authentication'',
      t_properties = [
        (''baseUrl'', \<lparr>p_type = ''string'',
           p_description = ''The base URL of the Creatio instance (e.g., https://yourcompany.creatio.com)''\<rparr>),
        (''username'', \<lparr>p_type = ''string'',
           p_description = ''Creatio username for authentication''\<rparr>),
        (''password'', \<lparr>p_type = ''string'',
           p_description = ''Creatio password for authentication''\<rparr>)],
      t_required = Some [''baseUrl'', ''username'', ''password'']\<rparr>,
    \<lparr>t_name = ''query_creatio_accounts'',
      t_description = ''Query Creatio Account (Customer) records with OData filter expressions'',
      t_properties = [
        (''filter'', \<lparr>p_type = ''string'',
           p_description = ''OData $filter expression (e.g., "contains(Name,'Tech')" or "Name eq 'Acme'")''\<rparr>),
        (''select'', \<lparr>p_type = ''string'',
           p_description = ''Comma-separated list of fields to return (e.g., "Id,Name,Phone,Email")''\<rparr>),
        (''top'', \<lparr>p_type = ''number'',
           p_description = ''Maximum number of records to return (1-100, default 25)''\<rparr>),
        (''orderby'', \<lparr>p_type = ''string'',
           p_description = ''Sort order (e.g., "Name asc" or "CreatedOn desc")''\<rparr>)],
      t_required = None\<rparr>,
    \<lparr>t_name = ''get_creatio_account'',
      t_description = ''Get a single Creatio Account by its unique ID (GUID)'',
      t_properties = [
        (''id'', \<lparr>p_type = ''string'',
           p_description = ''The GUID of the account to retrieve''\<rparr>)],
      t_required = Some [''id'']\<rparr>,
    \<lparr>t_name = ''create_creatio_account'',
      t_description = ''Create a new Account record in Creatio CRM'',
      t_properties = [
        (''name'', \<lparr>p_type = ''string'',
           p_description = ''Account/Company name (required)''\<rparr>),
        (''phone'', \<lparr>p_type = ''string'',
           p_description = ''Primary phone number''\<rparr>),
        (''email'', \<lparr>p_type = ''string'',
           p_description = ''Primary email address''\<rparr>),
        (''web'', \<lparr>p_type = ''string'',
           p_description = ''Website URL''\<rparr>),
        (''address'', \<lparr>p_type = ''string'',
           p_description = ''Street address''\<rparr>),
        (''city'', \<lparr>p_type = ''string'',
           p_description = ''City''\<rparr>)],
      t_required = Some [''name'']\<rparr>,
    \<lparr>t_name = ''update_creatio_account'',
      t_description = ''Update an existing Account record in Creatio CRM'',
      t_properties = [
        (''id'', \<lparr>p_type = ''string'',
           p_description = ''The GUID of the account to update''\<rparr>),
        (''name'', \<lparr>p_type = ''string'',
           p_description = ''Account/Company name''\<rparr>),
        (''phone'', \<lparr>p_type = ''string'',
           p_description = ''Primary phone number''\<rparr>),
        (''email'', \<lparr>p_type = ''string'',
           p_description = ''Primary email address''\<rparr>),
        (''web'', \<lparr>p_type = ''string'',
           p_description = ''Website URL''\<rparr>),
        (''address'', \<lparr>p_type = ''string'',
           p_description = ''Street address''\<rparr>),
        (''city'', \<lparr>p_type = ''string'',
           p_description = ''City''\<rparr>)],
      t_required = Some [''id'']\<rparr>,
    \<lparr>t_name = ''delete_creatio_account'',
      t_description = ''Delete an Account record from Creatio CRM'',
      t_properties = [
        (''id'', \<lparr>p_type = ''string'',
           p_description = ''The GUID of the account to delete''\<rparr>)],
      t_required = Some [''id'']\<rparr>]\<close>

text \<open>The list returned by the \<open>ListToolsRequestSchema\<close> handler (mcp-sse-server.ts).\<close>

definition listTools :: "mcp_tool list" where
  \<open>listTools = [
    \<lparr>t_name = ''test_creatio_connection'',
      t_description = ''Test connection to a Creatio CRM instance using Forms authentication'',
      t_properties = [
        (''baseUrl'', \<lparr>p_type = ''string'',
           p_description = ''The base URL of the Creatio instance (e.g., https://yourcompany.creatio.com)''\<rparr>),
        (''username'', \<lparr>p_type = ''string'',
           p_description = ''Creatio username for authentication''\<rparr>),
        (''password'', \<lparr>p_type = ''string'',
           p_description = ''Creatio password for authentication''\<rparr>)],
      t_required = Some [''baseUrl'', ''username'', ''password'']\<rparr>,
    \<lparr>t_name = ''query_creatio_accounts'',
      t_description = ''Query Creatio Account (Customer) records with OData filter expressions'',
      t_properties = [
        (''filter'', \<lparr>p_type = ''string'',
           p_description = ''OData $filter expression (e.g., "contains(Name,'Tech')" or "Name eq 'Acme'")''\<rparr>),
        (''select'', \<lparr>p_type = ''string'',
           p_description = ''Comma-separated list of fields to return (e.g., "Id,Name,Phone,Email")''\<rparr>),
        (''top'', \<lparr>p_type = ''number'',
           p_description = ''Maximum number of records to return (1-100, default 25)''\<rparr>),
        (''orderby'', \<lparr>p_type = ''string'',
           p_description = ''Sort order (e.g., "Name asc" or "CreatedOn desc")''\<rparr>)],
      t_required = None\<rparr>,
    \<lparr>t_name = ''get_creatio_account'',
      t_description = ''Get a single Creatio Account by its unique ID (GUID)'',
      t_properties = [
        (''id'', \<lparr>p_type = ''string'',
           p_description = ''The GUID of the account to retrieve''\<rparr>)],
      t_required = Some [''id'']\<rparr>,
    \<lparr>t_name = ''create_creatio_account'',
      t_description = ''Create a new Account record in Creatio CRM'',
      t_properties = [
        (''name'', \<lparr>p_type = ''string'',
           p_description = ''Account/Company name (required)''\<rparr>),
        (''phone'', \<lparr>p_type = ''string'',
           p_description = ''Primary phone number''\<rparr>),
        (''email'', \<lparr>p_type = ''string'',
           p_description = ''Primary email address''\<rparr>),
        (''web'', \<lparr>p_type = ''string'',
           p_description = ''Website URL''\<rparr>),
        (''address'', \<lparr>p_type = ''string'',
           p_description = ''Street address''\<rparr>),
        (''city'', \<lparr>p_type = ''string'',
           p_description = ''City''\<rparr>)],
      t_required = Some [''name'']\<rparr>,
    \<lparr>t_name = ''update_creatio_account'',
      t_description = ''Update an existing Account record in Creatio CRM'',
      t_properties = [
        (''id'', \<lparr>p_type = ''string'',
           p_description = ''The GUID of the account to update''\<rparr>),
        (''name'', \<lparr>p_type = ''string'',
           p_description = ''Account/Company name''\<rparr>),
        (''phone'', \<lparr>p_type = ''string'',
           p_description = ''Primary phone number''\<rparr>),
        (''email'', \<lparr>p_type = ''string'',
           p_description = ''Primary email address''\<rparr>),
        (''web'', \<lparr>p_type = ''string'',
           p_description = ''Website URL''\<rparr>),
        (''address'', \<lparr>p_type = ''string'',
           p_description = ''Street address''\<rparr>),
        (''city'', \<lparr>p_type = ''string'',
           p_description = ''City''\<rparr>)],
      t_required = Some [''id'']\<rparr>,
    \<lparr>t_name = ''delete_creatio_account'',
      t_description = ''Delete an Account record from Creatio CRM'',
      t_properties = [
        (''id'', \<lparr>p_type = ''string'',
           p_description = ''The GUID of the account to delete''\<rparr>)],
      t_required = Some [''id'']\<rparr>]\<close>

text \<open>
  The dashboard panel's own declaration \<open>mcpTools\<close> (the component \<open>MCPToolsPanel\<close>, in
  src/unnamed/part_000 from line 82 on).
\<close>

record panel_param =
  pp_type :: string
  pp_description :: string
  pp_required :: "bool option"

record panel_tool =
  pt_name :: string
  pt_description :: string
  pt_parameters :: "(string \<times> panel_param) list"

definition mcpTools :: "panel_tool list" where
  \<open>mcpTools = [
    \<lparr>pt_name = ''query_creatio_accounts'',
      pt_description = ''Query Creatio Account (Customer) records with OData filters'',
      pt_parameters = [
        (''filter'', \<lparr>pp_type = ''string'',
           pp_description = ''OData $filter expression (e.g., contains(Name,'Tech'))'',
           pp_required = Some False\<rparr>),
        (''select'', \<lparr>pp_type = ''string'',
           pp_description = ''Comma-separated fields to return'',
           pp_required = Some False\<rparr>),
        (''top'', \<lparr>pp_type = ''number'',
           pp_description = ''Maximum number of records (1-100)'',
           pp_required = Some False\<rparr>),
        (''orderby'', \<lparr>pp_type = ''string'',
           pp_description = ''Sort order (e.g., 'Name asc')'',
           pp_required = Some False\<rparr>)]\<rparr>,
    \<lparr>pt_name = ''get_creatio_account'',
      pt_description = ''Get a single Creatio Account by ID'',
      pt_parameters = [
        (''id'', \<lparr>pp_type = ''string'',
           pp_description = ''The GUID of the account to retrieve'',
           pp_required = Some True\<rparr>)]\<rparr>,
    \<lparr>pt_name = ''test_creatio_connection'',
      pt_description = ''Test connection to Creatio instance'',
      pt_parameters = [
        (''baseUrl'', \<lparr>pp_type = ''string'',
           pp_description = ''Creatio instance URL'',
           pp_required = Some True\<rparr>),
        (''username'', \<lparr>pp_type = ''string'',
           pp_description = ''Creatio username'',
           pp_required = Some True\<rparr>),
        (''password'', \<lparr>pp_type = ''string'',
           pp_description = ''Creatio password'',
           pp_required = Some True\<rparr>)]\<rparr>]\<close>

text \<open>
  The shape of a tool: its name with, for each parameter, the name, the type and
  whether it is required.
\<close>

type_synonym shape = "string \<times> (string \<times> string \<times> bool) list"

definition is_required :: "mcp_tool \<Rightarrow> string \<Rightarrow> bool" where
  "is_required t k = (k \<in> set (case t_required t of None \<Rightarrow> [] | Some ks \<Rightarrow> ks))"

definition tool_shape :: "mcp_tool \<Rightarrow> shape" where
  "tool_shape t = (t_name t, map (\<lambda>(k, p). (k, p_type p, is_required t k)) (t_properties t))"

definition panel_shape :: "panel_tool \<Rightarrow> shape" where
  "panel_shape t =
     (pt_name t, map (\<lambda>(k, p). (k, pp_type p, pp_required p = Some True)) (pt_parameters t))"

text \<open>
  Two catalogues agree when each tool of either is declared in the other under the same
  name, with the same set of parameters, each of the same type and required flag.
\<close>

definition same_params :: "(string \<times> string \<times> bool) list \<Rightarrow> (string \<times> string \<times> bool) list \<Rightarrow> bool" where
  "same_params ps qs = (list_all (\<lambda>p. p \<in> set qs) ps \<and> list_all (\<lambda>q. q \<in> set ps) qs)"

definition covered_by :: "shape list \<Rightarrow> shape \<Rightarrow> bool" where
  "covered_by others sh =
     (case map_of others (fst sh) of None \<Rightarrow> False | Some qs \<Rightarrow> same_params (snd sh) qs)"

definition catalogues_agree :: "shape list \<Rightarrow> shape list \<Rightarrow> bool" where
  "catalogues_agree a b = (list_all (covered_by b) a \<and> list_all (covered_by a) b)"

section \<open>The query string, as a table\<close>

text \<open>
  The six parameters in the order of the source, each with its key and whether its
  value goes through \<open>encodeURIComponent\<close>.
\<close>

definition query_table :: "query_params \<Rightarrow> (string \<times> jsval \<times> bool) list" where
  "query_table p =
     [(''$filter'', qp_filter p, True), (''$select'', qp_select p, True),
      (''$top'', qp_top p, False), (''$skip'', qp_skip p, False),
      (''$orderby'', qp_orderby p, True), (''$expand'', qp_expand p, True)]"

definition render_param :: "string \<times> jsval \<times> bool \<Rightarrow> string" where
  "render_param e =
     fst e @ ''='' @ (if snd (snd e) then encodeURIComponent (js_to_string (fst (snd e)))
                      else js_to_string (fst (snd e)))"

definition render_query :: "(string \<times> jsval \<times> bool) list \<Rightarrow> string" where
  "render_query es = (if es = [] then [] else ''?'' @ join ''&'' (map render_param es))"

text \<open>
  The query string when every parameter that is present (not \<open>undefined\<close>) is appended,
  and when every parameter with a truthy value is.
\<close>

definition queryString_of_present :: "query_params \<Rightarrow> string" where
  "queryString_of_present p = render_query (filter (\<lambda>e. fst (snd e) \<noteq> JUndefined) (query_table p))"

definition queryString_of_truthy :: "query_params \<Rightarrow> string" where
  "queryString_of_truthy p = render_query (filter (\<lambda>e. truthy (fst (snd e))) (query_table p))"

section \<open>What a tool call sends upstream\<close>

text \<open>The requests a step added to the log.\<close>

definition new_requests :: "world \<Rightarrow> world \<Rightarrow> request list" where
  "new_requests w w' = drop (length (net_log w)) (net_log w')"

definition ends_with :: "string \<Rightarrow> string \<Rightarrow> bool" where
  "ends_with s suffix = starts_with (rev s) (rev suffix)"

text \<open>The write requests: the \<open>PATCH\<close> of an update, the \<open>POST\<close> to the Account collection.\<close>

definition is_update_request :: "request \<Rightarrow> bool" where
  "is_update_request rq = (rq_method rq = ''PATCH'')"

definition is_create_request :: "request \<Rightarrow> bool" where
  "is_create_request rq = (rq_method rq = ''POST'' \<and> ends_with (rq_url rq) ''/0/odata/Account'')"

text \<open>The optional fields of the two tools: argument name and upstream field name.\<close>

definition create_optional :: "(string \<times> string) list" where
  "create_optional = [(''phone'', ''Phone''), (''email'', ''Email''), (''web'', ''Web''),
                      (''address'', ''Address''), (''city'', ''City'')]"

definition update_optional :: "(string \<times> string) list" where
  "update_optional = (''name'', ''Name'') # create_optional"

text \<open>
  A body omits the falsy ones of the given fields when each field is either truthy in
  the argument bag or not a key of the body.
\<close>

definition omits_falsy :: "jsval \<Rightarrow> (string \<times> string) list \<Rightarrow> jsval option \<Rightarrow> bool" where
  "omits_falsy args fs body =
     (case body of
        Some (JObj obj) \<Rightarrow>
          list_all (\<lambda>kK. truthy (js_prop args (fst kK)) \<or> map_of obj (snd kK) = None) fs
      | _ \<Rightarrow> False)"

definition sets_no_empty_string :: "jsval option \<Rightarrow> bool" where
  "sets_no_empty_string body =
     (case body of Some (JObj obj) \<Rightarrow> list_all (\<lambda>kv. snd kv \<noteq> JStr []) obj | _ \<Rightarrow> False)"

section \<open>Sample inputs\<close>

definition sample_config :: jsval where
  "sample_config = JObj [(''baseUrl'', JStr ''https://acme.creatio.com/''),
                         (''username'', JStr ''api''), (''password'', JStr ''secret'')]"

definition idle_world :: world where
  "idle_world = \<lparr>heap = [], currentClient = None, mcpServer_client = None, net_log = [],
                 clock = 1000, now_iso = ''2026-01-01T00:00:01.000Z''\<rparr>"

definition sample_session :: creatio_session where
  "sample_session = \<lparr>cookies = ''BPMCSRF=tok; .ASPXAUTH=ticket'', csrfToken = ''tok'', expiresAt = 5000\<rparr>"

text \<open>One client, held by both pointers; its session is valid until 5000.\<close>

definition connected_world :: world where
  "connected_world =
     \<lparr>heap = [\<lparr>config = sample_config, session = Some sample_session\<rparr>],
      currentClient = Some 0, mcpServer_client = Some 0, net_log = [],
      clock = 1000, now_iso = ''2026-01-01T00:00:01.000Z''\<rparr>"

text \<open>The same client later, its session expired.\<close>

definition expired_world :: world where
  "expired_world = connected_world\<lparr>clock := 9000\<rparr>"

definition login_rejected :: response where
  "login_rejected =
     \<lparr>rs_status = 401, rs_statusText = ''Unauthorized'', rs_contentType = None,
      rs_setCookie = GetSetCookie [], rs_text = [],
      rs_json = Inl (SyntaxError ''Unexpected end of JSON input'')\<rparr>"

definition html_page :: response where
  "html_page =
     \<lparr>rs_status = 200, rs_statusText = ''OK'', rs_contentType = Some ''text/html; charset=utf-8'',
      rs_setCookie = GetSetCookie [],
      rs_text = ''<html><head><title>Login</title></head></html>'',
      rs_json = Inl (SyntaxError ''Unexpected token < in JSON at position 0'')\<rparr>"

definition no_content :: response where
  "no_content =
     \<lparr>rs_status = 204, rs_statusText = ''No Content'', rs_contentType = None,
      rs_setCookie = GetSetCookie [], rs_text = [],
      rs_json = Inl (SyntaxError ''Unexpected end of JSON input'')\<rparr>"

text \<open>The four login cookies with their attributes, and the same as one combined header.\<close>

definition login_cookies :: "string list" where
  "login_cookies =
     [''BPMCSRF=tok; path=/'', ''.ASPXAUTH=ticket; path=/; HttpOnly'',
      ''BPMLOADER=ldr; path=/'', ''UserName=api; path=/'']"

definition login_cookies_combined :: string where
  "login_cookies_combined =
     ''BPMCSRF=tok; path=/, .ASPXAUTH=ticket; path=/; HttpOnly, BPMLOADER=ldr; path=/, UserName=api; path=/''"

definition partial_update_args :: jsval where
  "partial_update_args =
     JObj [(''id'', JStr ''42''), (''name'', JStr []), (''phone'', JStr ''555''), (''city'', JNull)]"

text \<open>
  What the dispatcher hands to the client for the arguments \<open>{filter: ""}\<close>: the filter is
  present and empty, \<open>top\<close> and \<open>orderby\<close> carry their defaults.
\<close>

definition empty_filter :: query_params where
  "empty_filter = \<lparr>qp_filter = JStr [], qp_select = JUndefined, qp_top = JNum 25,
                    qp_skip = JUndefined, qp_orderby = JStr ''Name asc'', qp_expand = JUndefined\<rparr>"


definition no_sessions :: sse_server where
  "no_sessions = \<lparr>activeTransports = [], listening = []\<rparr>"

definition sample_handle :: string where
  "sample_handle = ''0b6e6a0c-5f0f-4d0c-9f43-2f1c1f0f7a11''"

text \<open>
  What \<open>server.connect\<close> and \<open>handlePostMessage\<close> of the SDK's SSE transport throw on
  this handler: the transport writes the response head itself, after the handler has
  flushed it, and then holds no stream to answer on.
\<close>

definition headers_sent :: js_error where
  "headers_sent = Error ''Cannot write headers after they are sent to the client''"

definition not_established :: js_error where
  "not_established = Error ''SSE connection not established''"

section \<open>The header list, parsed\<close>

text \<open>
  The trimmed name and value of every header the cookie pattern matches, in order.
\<close>

definition parsed_cookies :: "string list \<Rightarrow> (string \<times> string) list" where
  "parsed_cookies hs = map (\<lambda>nv. (trim (fst nv), trim (snd nv))) (List.map_filter cookieMatch hs)"

section \<open>Failed authentication\<close>

lemma authenticate_failure_world:
  "authenticate nt r w = (Inl e, w') \<Longrightarrow>
     w' = w \<or> (\<exists>base. w' = log_request (login_request base (config (deref w r))) w)"
  by (auto simp: authenticate_def Let_def split: sum.splits fetch_result.splits if_splits prod.splits)

lemma authenticate_success_world:
  "authenticate nt r w = (Inr u, w') \<Longrightarrow>
     \<exists>base s. w' = store_session r s (log_request (login_request base (config (deref w r))) w)"
  by (auto simp: authenticate_def Let_def split: sum.splits fetch_result.splits if_splits prod.splits)

text \<open>
  The three failures the login response can cause (a non-success status, a body that does not
  parse, a \<open>Code\<close> other than 0) all make \<open>authenticate\<close> throw after the request went out.
\<close>

lemma login_failure_throws:
  assumes "client_baseUrl (deref w r) = Inr base"
    and "nt (login_request base (config (deref w r))) = Resp resp"
    and "\<not> ok resp \<or> (\<exists>e. rs_json resp = Inl e)
         \<or> (\<exists>result. rs_json resp = Inr result \<and> get_prop result ''Code'' \<noteq> Inr (JNum 0))"
  shows "\<exists>e. authenticate nt r w = (Inl e, log_request (login_request base (config (deref w r))) w)"
  using assms
  by (auto simp: authenticate_def Let_def split: sum.splits)

text \<open>
  A session is written only on the one path where the status is a success, the body parses
  and its \<open>Code\<close> is 0; what is written is complete: both extracted strings and the expiry.
\<close>

lemma authenticate_success_stores_session:
  assumes "authenticate nt r w = (Inr u, w')" and "r < length (heap w)"
  shows "\<exists>resp result. ok resp \<and> rs_json resp = Inr result \<and> get_prop result ''Code'' = Inr (JNum 0) \<and>
           session (deref w' r)
             = Some \<lparr>cookies = fst (extract_cookies (setCookieHeaders (rs_setCookie resp))),
                     csrfToken = snd (extract_cookies (setCookieHeaders (rs_setCookie resp))),
                     expiresAt = clock w + sessionTimeout\<rparr>"
  using assms
  by (auto simp: authenticate_def Let_def store_session_def log_request_def deref_def
      split: sum.splits fetch_result.splits if_splits prod.splits)

text \<open>
  Claim C9. Whenever \<open>authenticate\<close> throws, for whatever reason, the heap is what it was:
  the client's \<open>session\<close> field is untouched (an expired session stays in place, no partial
  session is written), and neither client pointer moves.
\<close>

theorem authenticate_failure_keeps_session:
  assumes "authenticate nt r w = (Inl e, w')"
  shows "heap w' = heap w \<and> session (deref w' r) = session (deref w r)
         \<and> currentClient w' = currentClient w \<and> mcpServer_client w' = mcpServer_client w"
  using authenticate_failure_world [OF assms]
  by (auto simp: log_request_def deref_def)

theorem authenticate_failure_keeps_session_witness:
  "authenticate (\<lambda>_. Resp login_rejected) 0 expired_world
     = (Inl (Error ''Authentication failed: 401 Unauthorized''),
        log_request (login_request ''https://acme.creatio.com'' sample_config) expired_world)
   \<and> session (deref (log_request (login_request ''https://acme.creatio.com'' sample_config) expired_world) 0)
       = Some sample_session
   \<and> \<not> isSessionValid (deref expired_world 0) (clock expired_world)"
proof -
  have run: "authenticate (\<lambda>_. Resp login_rejected) 0 expired_world
     = (Inl (Error ''Authentication failed: 401 Unauthorized''),
        log_request (login_request ''https://acme.creatio.com'' sample_config) expired_world)"
    by code_simp
  from authenticate_failure_keeps_session [OF run] show ?thesis
    using run
    by (simp add: expired_world_def connected_world_def deref_def isSessionValid_def sample_session_def)
qed

section \<open>Dispatch\<close>

text \<open>
  Claim C8. A name that is not one of the six registered tools gets, from either dispatcher,
  the result \<open>{content: "Unknown tool: <name>", isError: true}\<close>; the call returns (the result
  type has no error alternative) and the world is unchanged.
\<close>

theorem unknown_tool_is_error_result:
  assumes "name \<notin> set (map t_name MCP_TOOLS)"
  shows "executeTool nt name args w
           = (\<lparr>content = [Lit (''Unknown tool: '' @ name)], isError = Some True\<rparr>, w)
         \<and> callTool nt name args w
           = (\<lparr>content = [Lit (''Unknown tool: '' @ name)], isError = Some True\<rparr>, w)"
  using assms
  by (simp add: MCP_TOOLS_def executeTool_def callTool_def dispatch_def catch_tool_def unknown_tool_def)

theorem unknown_tool_is_error_result_witness:
  "''drop_database'' \<notin> set (map t_name MCP_TOOLS)
   \<and> executeTool (\<lambda>_. Resp html_page) ''drop_database'' JUndefined connected_world
       = (\<lparr>content = [Lit ''Unknown tool: drop_database''], isError = Some True\<rparr>, connected_world)
   \<and> callTool (\<lambda>_. Resp html_page) ''drop_database'' JUndefined connected_world
       = (\<lparr>content = [Lit ''Unknown tool: drop_database''], isError = Some True\<rparr>, connected_world)"
proof -
  have unknown: "''drop_database'' \<notin> set (map t_name MCP_TOOLS)"
    by (simp add: MCP_TOOLS_def)
  from unknown_tool_is_error_result [OF unknown] show ?thesis
    using unknown by simp
qed

text \<open>
  With no client behind the dispatcher's pointer, \<open>query_creatio_accounts\<close> answers
  \<open>isError: true\<close> with the "Not connected" guidance, whatever the arguments, and leaves the
  world as it was: nothing is added to the request log.
\<close>

lemma null_pointer_query_not_connected:
  "(mcpServer_client w = None \<longrightarrow>
      executeTool nt ''query_creatio_accounts'' args w
        = (\<lparr>content = [Lit ''Not connected. Use test_creatio_connection first.''], isError = Some True\<rparr>, w)
      \<and> new_requests w (snd (executeTool nt ''query_creatio_accounts'' args w)) = [])
   \<and> (getCreatioClient w = None \<longrightarrow>
      callTool nt ''query_creatio_accounts'' args w
        = (\<lparr>content = [Lit ''Not connected. Use test_creatio_connection first.''], isError = Some True\<rparr>, w)
      \<and> new_requests w (snd (callTool nt ''query_creatio_accounts'' args w)) = [])"
  by (simp add: executeTool_def callTool_def dispatch_def catch_tool_def tool_queryAccounts_def
        not_connected_def new_requests_def)

section \<open>The connect route and the client pointer\<close>

lemma authenticate_pointers:
  "authenticate nt r w = (res, w') \<Longrightarrow>
     currentClient w' = currentClient w \<and> mcpServer_client w' = mcpServer_client w
     \<and> length (heap w') = length (heap w)"
  using authenticate_failure_world [of nt r w _ w'] authenticate_success_world [of nt r w _ w']
  by (cases res) (auto simp: log_request_def store_session_def)

lemma testConnection_failure:
  assumes "testConnection nt r w = (result, w')" and "\<not> success result"
  shows "heap w' = heap w \<and> currentClient w' = currentClient w \<and> mcpServer_client w' = mcpServer_client w"
proof -
  obtain res w1 where a: "authenticate nt r w = (res, w1)"
    by (cases "authenticate nt r w")
  with assms obtain e where "res = Inl e" "w' = w1"
    by (cases res) (auto simp: testConnection_def)
  with a authenticate_failure_world [of nt r w e w'] show ?thesis
    by (auto simp: log_request_def)
qed

text \<open>
  On the dashboard route a failed login leaves the fresh client without a session and
  \<open>mcpServer.client\<close> alone, but \<open>currentClient\<close> already points at the fresh client:
  \<open>createCreatioClient\<close> sets it before the login is tried.
\<close>

lemma connect_handler_failed_login:
  assumes "creatioConfigSchema_parse is_url body = Some cfg"
    and "connect_handler is_url nt body w = (reply, w')"
    and "js_prop (rp_body reply) ''success'' = JBool False"
  shows "currentClient w' = Some (length (heap w))
         \<and> session (deref w' (length (heap w))) = None
         \<and> mcpServer_client w' = mcpServer_client w"
proof -
  define w1 where "w1 = setCreatioClient (Some (length (heap w))) (w\<lparr>heap := heap w @ [\<lparr>config = cfg, session = None\<rparr>]\<rparr>)"
  obtain result w2 where t: "testConnection nt (length (heap w)) w1 = (result, w2)"
    by (cases "testConnection nt (length (heap w)) w1")
  from assms t have fail: "\<not> success result" and w': "w' = w2"
    by (auto simp: connect_handler_def createCreatioClient_def new_CreatioClient_def w1_def
          js_prop_def Let_def split: if_splits)
  from testConnection_failure [OF t fail] w' show ?thesis
    by (simp add: w1_def setCreatioClient_def deref_def)
qed

text \<open>The tool path promotes only after a successful login.\<close>

lemma sse_testConnection_failed_login:
  assumes "sse_testConnection nt cfg w = (Inr res, w')" and "isError res = Some True"
  shows "currentClient w' = currentClient w \<and> mcpServer_client w' = mcpServer_client w"
proof -
  define w1 where "w1 = w\<lparr>heap := heap w @ [\<lparr>config = cfg, session = None\<rparr>]\<rparr>"
  obtain result w2 where t: "testConnection nt (length (heap w)) w1 = (result, w2)"
    by (cases "testConnection nt (length (heap w)) w1")
  from assms t have fail: "\<not> success result" and w': "w' = w2"
    by (auto simp: sse_testConnection_def new_CreatioClient_def w1_def connection_text_def
          Let_def split: if_splits)
  from testConnection_failure [OF t fail] w' show ?thesis
    by (simp add: w1_def)
qed

text \<open>
  Claim C1. The claim asks that a failed login leave the Active-Client Pointer exactly as it
  was. On the route \<open>POST /api/creatio/connect\<close>, with a valid config, no client connected
  before and the upstream answering the login with 401: the reply says \<open>success: false\<close> and
  the new client has no session, yet \<open>currentClient\<close> has moved from \<open>null\<close> to the new
  client. The same failed login through the tool \<open>test_creatio_connection\<close> leaves it \<open>null\<close>.
\<close>

theorem connect_failed_login_promotes_client:
  "creatioConfigSchema_parse (\<lambda>_. True) sample_config = Some sample_config
   \<and> currentClient idle_world = None
   \<and> rp_body (fst (connect_handler (\<lambda>_. True) (\<lambda>_. Resp login_rejected) sample_config idle_world))
       = JObj [(''success'', JBool False), (''message'', JStr ''Authentication failed: 401 Unauthorized''),
               (''timestamp'', JStr ''2026-01-01T00:00:01.000Z'')]
   \<and> currentClient (snd (connect_handler (\<lambda>_. True) (\<lambda>_. Resp login_rejected) sample_config idle_world))
       = Some 0
   \<and> session (deref (snd (connect_handler (\<lambda>_. True) (\<lambda>_. Resp login_rejected) sample_config idle_world)) 0)
       = None
   \<and> mcpServer_client (snd (connect_handler (\<lambda>_. True) (\<lambda>_. Resp login_rejected) sample_config idle_world))
       = None
   \<and> currentClient (snd (callTool (\<lambda>_. Resp login_rejected) ''test_creatio_connection'' sample_config idle_world))
       = None"
  by code_simp


section \<open>The three catalogues\<close>

lemma listTools_is_MCP_TOOLS: "listTools = MCP_TOOLS"
  by (simp add: MCP_TOOLS_def listTools_def)

lemma panel_tools_are_registered:
  "list_all (covered_by (map tool_shape MCP_TOOLS)) (map panel_shape mcpTools)"
  by code_simp

text \<open>
  Claim C2. The claim asks that the registry, the streaming server's list and the dashboard
  panel declare the same tools with the same parameters. The first two do; the panel declares
  three of the six tools, so for instance \<open>create_creatio_account\<close> is in the registry and
  not in the panel.
\<close>

theorem panel_catalogue_diverges:
  "map_of (map tool_shape MCP_TOOLS) ''create_creatio_account'' \<noteq> None
   \<and> map_of (map panel_shape mcpTools) ''create_creatio_account'' = None
   \<and> \<not> catalogues_agree (map tool_shape MCP_TOOLS) (map panel_shape mcpTools)
   \<and> catalogues_agree (map tool_shape MCP_TOOLS) (map tool_shape listTools)"
  by code_simp

section \<open>Cookie extraction\<close>

text \<open>
  The loop keeps, in order, the pairs with a known name, and the token is the value of the
  last \<open>BPMCSRF\<close> header; so whatever list of headers the loop is given, it retains exactly
  the known names among them.
\<close>

lemma cookie_loop_parsed:
  "cookie_loop hs (parts, tok) =
     (parts @ map (\<lambda>nv. fst nv @ ''='' @ snd nv)
                (filter (\<lambda>nv. fst nv \<in> set known_cookies) (parsed_cookies hs)),
      (case filter (\<lambda>nv. fst nv = ''BPMCSRF'') (parsed_cookies hs) of
         [] \<Rightarrow> tok
       | x # xs \<Rightarrow> snd (last (x # xs))))"
proof (induction hs arbitrary: parts tok)
  case Nil
  then show ?case by (simp add: parsed_cookies_def map_filter_simps)
next
  case (Cons h hs)
  show ?case
  proof (cases "cookieMatch h")
    case None
    with Cons show ?thesis by (simp add: parsed_cookies_def map_filter_simps)
  next
    case (Some nv)
    obtain n v where nv: "nv = (n, v)" by (cases nv)
    with Some Cons [of _ _] show ?thesis
      by (auto simp: parsed_cookies_def map_filter_simps Let_def split: list.splits)
  qed
qed

text \<open>
  Claim C3. The claim asks for all four cookies from either encoding. From the multi-value
  accessor the four login cookies come out in order. From the same four as one combined
  header the auth ticket is lost: \<open>.ASPXAUTH\<close> starts with a dot, the lookahead wants a letter
  or an underscore there, so the comma before it is not a split point and the cookie stays
  inside the attributes of \<open>BPMCSRF\<close>.
\<close>

theorem combined_header_loses_auth_ticket:
  "login_cookies_combined = join '', '' login_cookies
   \<and> extract_cookies (setCookieHeaders (GetSetCookie login_cookies))
       = (''BPMCSRF=tok; .ASPXAUTH=ticket; BPMLOADER=ldr; UserName=api'', ''tok'')
   \<and> extract_cookies (setCookieHeaders (RawHeader (Some login_cookies_combined)))
       = (''BPMCSRF=tok; BPMLOADER=ldr; UserName=api'', ''tok'')"
  by code_simp

section \<open>Classification of the query response\<close>

text \<open>
  Claim C4. When the \<open>GET\<close> of a query comes back with a success status and a content type
  containing \<open>text/html\<close>, the operation fails with the "returned HTML instead of JSON" error.
  The outcome is the same whatever \<open>JSON.parse\<close> would make of the body: the parser is not
  consulted.
\<close>

theorem html_success_is_unexpected_content_type:
  assumes "send nt r ''GET'' (''/0/odata/Account'' @ queryString p) None w = (Inr resp, w')"
    and "ok resp"
    and "str_includes (contentType_of resp) ''text/html''"
  shows "queryAccounts nt r p w
           = (Inl (Error (''Creatio returned HTML instead of JSON: ''
                 @ (case titleMatch (rs_text resp) of Some t \<Rightarrow> t | None \<Rightarrow> ''Unknown Error'')
                 @ ''. Check that your user has OData API access permissions.'')), w')
         \<and> query_response (resp\<lparr>rs_json := j\<rparr>) = query_response resp"
  using assms
  by (simp add: queryAccounts_def query_response_def Let_def ok_def contentType_of_def)

theorem html_success_is_unexpected_content_type_witness:
  "send (\<lambda>_. Resp html_page) 0 ''GET'' (''/0/odata/Account'' @ queryString empty_filter) None connected_world
     = (Inr html_page,
        log_request \<lparr>rq_method = ''GET'', rq_url = ''https://acme.creatio.com/0/odata/Account?$top=25&$orderby=Name%20asc'',
          rq_headers = [(''Accept'', ''application/json''),
              (''Content-Type'', ''application/json; charset=utf-8; IEEE754Compatible=true''),
              (''ForceUseSession'', ''true''), (''BPMCSRF'', ''tok''),
              (''Cookie'', ''BPMCSRF=tok; .ASPXAUTH=ticket'')],
          rq_body = None\<rparr> connected_world)
   \<and> ok html_page \<and> str_includes (contentType_of html_page) ''text/html''
   \<and> fst (queryAccounts (\<lambda>_. Resp html_page) 0 empty_filter connected_world)
       = Inl (Error ''Creatio returned HTML instead of JSON: Login. Check that your user has OData API access permissions.'')
   \<and> query_response (html_page\<lparr>rs_json := Inr (JObj [(''value'', JArr [])])\<rparr>) = query_response html_page"
proof -
  have sent: "send (\<lambda>_. Resp html_page) 0 ''GET'' (''/0/odata/Account'' @ queryString empty_filter) None connected_world
     = (Inr html_page,
        log_request \<lparr>rq_method = ''GET'', rq_url = ''https://acme.creatio.com/0/odata/Account?$top=25&$orderby=Name%20asc'',
          rq_headers = [(''Accept'', ''application/json''),
              (''Content-Type'', ''application/json; charset=utf-8; IEEE754Compatible=true''),
              (''ForceUseSession'', ''true''), (''BPMCSRF'', ''tok''),
              (''Cookie'', ''BPMCSRF=tok; .ASPXAUTH=ticket'')],
          rq_body = None\<rparr> connected_world)"
    by code_simp
  have good: "ok html_page" by code_simp
  have html: "str_includes (contentType_of html_page) ''text/html''" by code_simp
  have title: "titleMatch (rs_text html_page) = Some ''Login''" by code_simp
  from html_success_is_unexpected_content_type [OF sent good html, of "Inr (JObj [(''value'', JArr [])])"]
  show ?thesis
    using sent good html title by simp
qed

section \<open>The query string\<close>

text \<open>
  Claim C5, as stated: every parameter that is present is appended. It fails for a parameter
  that is present with a falsy value: for a filter that is the empty string the source
  appends no \<open>$filter=\<close>.
\<close>

theorem queryString_present_counterexample:
  "queryString empty_filter = ''?$top=25&$orderby=Name%20asc''
   \<and> queryString_of_present empty_filter = ''?$filter=&$top=25&$orderby=Name%20asc''
   \<and> queryString empty_filter \<noteq> queryString_of_present empty_filter"
  by code_simp

text \<open>
  Claim C5, amended: the parameters appended are exactly those with a truthy value (present,
  and neither the empty string nor 0), in the order filter, select, top, skip, orderby,
  expand; each value is percent-encoded except those of top and skip; with no truthy
  parameter the query string is empty, without \<open>?\<close>.
\<close>

theorem queryString_appends_truthy: "queryString p = queryString_of_truthy p"
  by (simp add: queryString_def queryParts_def queryString_of_truthy_def query_table_def
        render_query_def render_param_def Let_def)

section \<open>Session routing\<close>

text \<open>
  The message route answers 400 without a session id, 404 for a handle the map does not
  hold, and hands the message to the transport for one it holds.
\<close>

lemma post_message_replies:
  "post_message deliver reg JUndefined
     = Reply \<lparr>rp_status = 400, rp_body = JObj [(''error'', JStr ''Session ID required'')]\<rparr>"
  "h \<noteq> [] \<Longrightarrow> map_of reg h = None \<Longrightarrow>
     post_message deliver reg (JStr h)
       = Reply \<lparr>rp_status = 404, rp_body = JObj [(''error'', JStr ''Session not found'')]\<rparr>"
  "h \<noteq> [] \<Longrightarrow> map_of reg h = Some t \<Longrightarrow> deliver t = None \<Longrightarrow>
     post_message deliver reg (JStr h) = Delivered t"
  "h \<noteq> [] \<Longrightarrow> map_of reg h = Some t \<Longrightarrow> deliver t = Some e \<Longrightarrow>
     post_message deliver reg (JStr h)
       = Reply \<lparr>rp_status = 500, rp_body = JObj [(''error'', JStr ''Internal server error'')]\<rparr>"
  by (simp_all add: post_message_def)

text \<open>
  When \<open>server.connect\<close> resolves before the connection closes, the close removes that
  handle and no other: every other handle keeps its transport.
\<close>

lemma close_after_connect_removes_handle:
  assumes "sse_handler h t None st = (r, st1)"
  shows "map_of (activeTransports st1) h = Some t"
    and "map_of (activeTransports (connection_closed h st1)) h = None"
    and "h' \<noteq> h \<Longrightarrow> map_of (activeTransports (connection_closed h st1)) h' = map_of (activeTransports st) h'"
  using assms
  by (auto simp: sse_handler_def sse_after_connect_def sse_accept_def connection_closed_def
        update_conv' delete_conv')

text \<open>
  When it rejects, or when the connection closes while it is pending, no listener is there
  to run: the handle stays.
\<close>

lemma close_without_listener_keeps_handle:
  "sse_handler h t (Some e) st = (r, st1) \<Longrightarrow> h \<notin> set (listening st) \<Longrightarrow>
     map_of (activeTransports (connection_closed h st1)) h = Some t"
  "h \<notin> set (listening st) \<Longrightarrow>
     map_of (activeTransports (snd (sse_after_connect h c (connection_closed h (sse_accept h t st))))) h
       = Some t"
  by (auto simp: sse_handler_def sse_after_connect_def sse_accept_def connection_closed_def
        update_conv' split: option.splits)

text \<open>
  Claim C7. The claim asks that after register-then-close a message with the handle get 404.
  The handler stores the transport before \<open>await server.connect(transport)\<close> and installs
  the \<open>close\<close> listener after it. With the SDK's SSE transport the \<open>await\<close> rejects (the
  transport writes the response head that the handler has flushed already), so the listener
  is never installed: after the connection closes the handle is still in the map, and a
  message posted with it is handed to the transport and answered 500, or delivered if the
  transport takes it, but not 404. Had \<open>connect\<close> resolved, the close would remove the
  handle and the reply would be 404; without a session id the reply is 400.
\<close>

theorem closed_session_still_registered:
  "fst (sse_handler sample_handle 7 (Some headers_sent) no_sessions) = Inl headers_sent
   \<and> map_of (activeTransports
        (connection_closed sample_handle (snd (sse_handler sample_handle 7 (Some headers_sent) no_sessions))))
        sample_handle = Some 7
   \<and> post_message (\<lambda>_. Some not_established)
        (activeTransports
          (connection_closed sample_handle (snd (sse_handler sample_handle 7 (Some headers_sent) no_sessions))))
        (JStr sample_handle)
       = Reply \<lparr>rp_status = 500, rp_body = JObj [(''error'', JStr ''Internal server error'')]\<rparr>
   \<and> post_message (\<lambda>_. None)
        (activeTransports
          (connection_closed sample_handle (snd (sse_handler sample_handle 7 (Some headers_sent) no_sessions))))
        (JStr sample_handle)
       = Delivered 7
   \<and> post_message (\<lambda>_. None)
        (activeTransports
          (connection_closed sample_handle (snd (sse_handler sample_handle 7 None no_sessions))))
        (JStr sample_handle)
       = Reply \<lparr>rp_status = 404, rp_body = JObj [(''error'', JStr ''Session not found'')]\<rparr>
   \<and> post_message (\<lambda>_. None)
        (activeTransports
          (connection_closed sample_handle (snd (sse_handler sample_handle 7 None no_sessions))))
        JUndefined
       = Reply \<lparr>rp_status = 400, rp_body = JObj [(''error'', JStr ''Session ID required'')]\<rparr>"
  by code_simp

section \<open>The bodies of create and update\<close>

lemma login_request_is_no_write:
  "\<not> is_update_request (login_request base cfg)" "\<not> is_create_request (login_request base cfg)"
  by (simp_all add: is_update_request_def is_create_request_def login_request_def login_path_def
        ends_with_def)

lemma authenticate_log:
  "authenticate nt r w = (res, w') \<Longrightarrow>
     net_log w' = net_log w \<or> (\<exists>base cfg. net_log w' = net_log w @ [login_request base cfg])"
proof (cases res)
  case (Inl e)
  assume "authenticate nt r w = (res, w')"
  with Inl authenticate_failure_world [of nt r w e w'] show ?thesis
    by (fastforce simp: log_request_def)
next
  case (Inr u)
  assume "authenticate nt r w = (res, w')"
  with Inr authenticate_success_world [of nt r w u w'] show ?thesis
    by (fastforce simp: log_request_def store_session_def)
qed

lemma ensureAuthenticated_log:
  "ensureAuthenticated nt r w = (res, w') \<Longrightarrow>
     net_log w' = net_log w \<or> (\<exists>base cfg. net_log w' = net_log w @ [login_request base cfg])"
  using authenticate_log [of nt r w res w']
  by (auto simp: ensureAuthenticated_def split: if_splits)

lemma send_new_requests:
  assumes run: "send nt r meth path body w = (res, w')"
    and login: "\<And>base cfg. Q (login_request base cfg)"
    and data: "\<And>rq. rq_method rq = meth \<Longrightarrow> rq_body rq = body \<Longrightarrow> Q rq"
  shows "list_all Q (new_requests w w')"
proof -
  obtain ra w1 where ea: "ensureAuthenticated nt r w = (ra, w1)"
    by (cases "ensureAuthenticated nt r w")
  from ensureAuthenticated_log [OF ea] login
  have auth: "list_all Q (new_requests w w1) \<and> (\<exists>xs. net_log w1 = net_log w @ xs)"
    by (auto simp: new_requests_def)
  then obtain xs where xs: "net_log w1 = net_log w @ xs" "list_all Q xs"
    by (auto simp: new_requests_def)
  from run ea have "w' = w1 \<or> (\<exists>rq. w' = log_request rq w1 \<and> rq_method rq = meth \<and> rq_body rq = body)"
    by (auto simp: send_def Let_def split: sum.splits fetch_result.splits)
  then show ?thesis
    using xs data by (auto simp: new_requests_def log_request_def)
qed

lemma updateAccount_new_requests:
  assumes "\<And>base cfg. Q (login_request base cfg)"
    and "\<And>rq. rq_method rq = ''PATCH'' \<Longrightarrow> rq_body rq = Some updates \<Longrightarrow> Q rq"
  shows "list_all Q (new_requests w (snd (updateAccount nt r aid updates w)))"
proof -
  obtain res w' where s: "send nt r ''PATCH'' (account_path aid) (Some updates) w = (res, w')"
    by (cases "send nt r ''PATCH'' (account_path aid) (Some updates) w")
  from send_new_requests [OF s, of Q] assms have "list_all Q (new_requests w w')" by blast
  with s show ?thesis
    by (auto simp: updateAccount_def split: sum.splits)
qed

lemma createAccount_new_requests:
  assumes "\<And>base cfg. Q (login_request base cfg)"
    and "\<And>rq. rq_method rq = ''POST'' \<Longrightarrow> rq_body rq = Some account \<Longrightarrow> Q rq"
  shows "list_all Q (new_requests w (snd (createAccount nt r account w)))"
proof -
  obtain res w' where s: "send nt r ''POST'' ''/0/odata/Account'' (Some account) w = (res, w')"
    by (cases "send nt r ''POST'' ''/0/odata/Account'' (Some account) w")
  from send_new_requests [OF s, of Q] assms have "list_all Q (new_requests w w')" by blast
  with s show ?thesis
    by (auto simp: createAccount_def split: sum.splits)
qed

lemma new_requests_same [simp]: "new_requests w w = []"
  by (simp add: new_requests_def)

lemma tool_updateAccount_new_requests:
  assumes "\<And>base cfg. Q (login_request base cfg)"
    and "\<And>rq. rq_method rq = ''PATCH'' \<Longrightarrow> rq_body rq = Some (JObj (updates_of args)) \<Longrightarrow> Q rq"
  shows "list_all Q (new_requests w (snd (catch_tool name (tool_updateAccount nt ptr args w))))"
proof (cases ptr)
  case None
  then show ?thesis by (simp add: tool_updateAccount_def catch_tool_def)
next
  case (Some client)
  show ?thesis
  proof (cases "get_prop args ''id''")
    case (Inl e)
    with Some show ?thesis by (simp add: tool_updateAccount_def catch_tool_def)
  next
    case (Inr aid)
    from updateAccount_new_requests [of Q "JObj (updates_of args)" w nt client aid] assms
    have "list_all Q (new_requests w (snd (updateAccount nt client aid (JObj (updates_of args)) w)))"
      by blast
    with Some Inr show ?thesis
      by (auto simp: tool_updateAccount_def catch_tool_def split: prod.splits sum.splits)
  qed
qed

lemma tool_createAccount_new_requests:
  assumes "\<And>base cfg. Q (login_request base cfg)"
    and "\<And>rq. rq_method rq = ''POST'' \<Longrightarrow> rq_body rq = Some (JObj (accountData args)) \<Longrightarrow> Q rq"
  shows "list_all Q (new_requests w (snd (catch_tool name (tool_createAccount nt ptr args w))))"
proof (cases ptr)
  case None
  then show ?thesis by (simp add: tool_createAccount_def catch_tool_def)
next
  case (Some client)
  show ?thesis
  proof (cases "get_prop args ''name''")
    case (Inl e)
    with Some show ?thesis by (simp add: tool_createAccount_def catch_tool_def)
  next
    case (Inr nm)
    from createAccount_new_requests [of Q "JObj (accountData args)" w nt client] assms
    have "list_all Q (new_requests w (snd (createAccount nt client (JObj (accountData args)) w)))"
      by blast
    with Some Inr show ?thesis
      by (auto simp: tool_createAccount_def catch_tool_def split: prod.splits sum.splits)
  qed
qed

lemma map_of_copy_if_truthy:
  "map_of (copy_if_truthy args kK obj) K =
     (if truthy (js_prop args (fst kK)) \<and> snd kK = K then Some (js_prop args (fst kK)) else map_of obj K)"
  by (simp add: copy_if_truthy_def update_conv')

lemma list_all_update:
  "list_all P al \<Longrightarrow> P (k, v) \<Longrightarrow> list_all P (AList.update k v al)"
  by (induction al) auto

lemma truthy_copy_if_truthy:
  "list_all (\<lambda>kv. truthy (snd kv)) obj \<Longrightarrow> list_all (\<lambda>kv. truthy (snd kv)) (copy_if_truthy args kK obj)"
  by (simp add: copy_if_truthy_def list_all_update)

lemma updates_of_truthy: "list_all (\<lambda>kv. truthy (snd kv)) (updates_of args)"
  unfolding updates_of_def by (intro truthy_copy_if_truthy) simp

lemma updates_of_no_empty_string: "sets_no_empty_string (Some (JObj (updates_of args)))"
  using updates_of_truthy [of args]
  by (auto simp: sets_no_empty_string_def list_all_iff)

lemma updates_of_omits_falsy: "omits_falsy args update_optional (Some (JObj (updates_of args)))"
  by (simp add: omits_falsy_def update_optional_def create_optional_def updates_of_def
        map_of_copy_if_truthy)

lemma accountData_omits_falsy: "omits_falsy args create_optional (Some (JObj (accountData args)))"
  by (simp add: omits_falsy_def create_optional_def accountData_def map_of_copy_if_truthy)

text \<open>
  Claim C10. Of the requests a dispatch of \<open>update_creatio_account\<close> or
  \<open>create_creatio_account\<close> sends, through either dispatcher, the write request (the \<open>PATCH\<close>,
  the \<open>POST\<close> to the Account collection) has a body in which every optional field with a
  falsy argument is absent; and no field of a \<open>PATCH\<close> body is the empty string.
\<close>

theorem falsy_optional_fields_omitted:
  "list_all (\<lambda>rq. is_update_request rq \<longrightarrow>
               omits_falsy args update_optional (rq_body rq) \<and> sets_no_empty_string (rq_body rq))
     (new_requests w (snd (executeTool nt ''update_creatio_account'' args w)))
   \<and> list_all (\<lambda>rq. is_update_request rq \<longrightarrow>
               omits_falsy args update_optional (rq_body rq) \<and> sets_no_empty_string (rq_body rq))
     (new_requests w (snd (callTool nt ''update_creatio_account'' args w)))
   \<and> list_all (\<lambda>rq. is_create_request rq \<longrightarrow> omits_falsy args create_optional (rq_body rq))
     (new_requests w (snd (executeTool nt ''create_creatio_account'' args w)))
   \<and> list_all (\<lambda>rq. is_create_request rq \<longrightarrow> omits_falsy args create_optional (rq_body rq))
     (new_requests w (snd (callTool nt ''create_creatio_account'' args w)))"
proof -
  have upd: "list_all (\<lambda>rq. is_update_request rq \<longrightarrow>
               omits_falsy args update_optional (rq_body rq) \<and> sets_no_empty_string (rq_body rq))
     (new_requests w (snd (catch_tool name (tool_updateAccount nt ptr args w))))" for name ptr
    by (rule tool_updateAccount_new_requests)
      (simp_all add: login_request_is_no_write updates_of_omits_falsy updates_of_no_empty_string)
  have cre: "list_all (\<lambda>rq. is_create_request rq \<longrightarrow> omits_falsy args create_optional (rq_body rq))
     (new_requests w (snd (catch_tool name (tool_createAccount nt ptr args w))))" for name ptr
    by (rule tool_createAccount_new_requests)
      (simp_all add: login_request_is_no_write accountData_omits_falsy)
  show ?thesis
    using upd cre by (simp add: executeTool_def callTool_def dispatch_def)
qed

theorem falsy_optional_fields_omitted_witness:
  "map rq_method (new_requests connected_world
       (snd (executeTool (\<lambda>_. Resp no_content) ''update_creatio_account'' partial_update_args connected_world)))
     = [''PATCH'']
   \<and> map rq_body (new_requests connected_world
       (snd (executeTool (\<lambda>_. Resp no_content) ''update_creatio_account'' partial_update_args connected_world)))
     = [Some (JObj [(''Phone'', JStr ''555'')])]
   \<and> omits_falsy partial_update_args update_optional (Some (JObj [(''Phone'', JStr ''555'')]))
   \<and> sets_no_empty_string (Some (JObj [(''Phone'', JStr ''555'')]))
   \<and> map rq_body (filter is_create_request (new_requests connected_world
       (snd (callTool (\<lambda>_. Resp no_content) ''create_creatio_account'' partial_update_args connected_world))))
     = [Some (JObj [(''Name'', JStr []), (''Phone'', JStr ''555'')])]
   \<and> omits_falsy partial_update_args create_optional (Some (JObj [(''Name'', JStr []), (''Phone'', JStr ''555'')]))"
proof -
  have sent: "new_requests connected_world
       (snd (executeTool (\<lambda>_. Resp no_content) ''update_creatio_account'' partial_update_args connected_world))
     = [\<lparr>rq_method = ''PATCH'', rq_url = ''https://acme.creatio.com/0/odata/Account(42)'',
          rq_headers = [(''Accept'', ''application/json''),
              (''Content-Type'', ''application/json; charset=utf-8; IEEE754Compatible=true''),
              (''ForceUseSession'', ''true''), (''BPMCSRF'', ''tok''),
              (''Cookie'', ''BPMCSRF=tok; .ASPXAUTH=ticket'')],
          rq_body = Some (JObj [(''Phone'', JStr ''555'')])\<rparr>]"
    by code_simp
  have posted: "new_requests connected_world
       (snd (callTool (\<lambda>_. Resp no_content) ''create_creatio_account'' partial_update_args connected_world))
     = [\<lparr>rq_method = ''POST'', rq_url = ''https://acme.creatio.com/0/odata/Account'',
          rq_headers = [(''Accept'', ''application/json''),
              (''Content-Type'', ''application/json; charset=utf-8; IEEE754Compatible=true''),
              (''ForceUseSession'', ''true''), (''BPMCSRF'', ''tok''),
              (''Cookie'', ''BPMCSRF=tok; .ASPXAUTH=ticket'')],
          rq_body = Some (JObj [(''Name'', JStr []), (''Phone'', JStr ''555'')])\<rparr>]"
    by code_simp
  have post: "is_create_request \<lparr>rq_method = ''POST'', rq_url = ''https://acme.creatio.com/0/odata/Account'',
          rq_headers = [(''Accept'', ''application/json''),
              (''Content-Type'', ''application/json; charset=utf-8; IEEE754Compatible=true''),
              (''ForceUseSession'', ''true''), (''BPMCSRF'', ''tok''),
              (''Cookie'', ''BPMCSRF=tok; .ASPXAUTH=ticket'')],
          rq_body = Some (JObj [(''Name'', JStr []), (''Phone'', JStr ''555'')])\<rparr>"
    by code_simp
  from falsy_optional_fields_omitted [of partial_update_args connected_world "\<lambda>_. Resp no_content"]
  show ?thesis
    unfolding sent posted using post by (simp add: is_update_request_def)
qed

end
